theory Spec2Isabelle
  imports Complex_Main
begin

section \<open>Values: floats, arrays, errors\<close>

text \<open>
  The preprocessor of \<^verbatim>\<open>PreprocessingForTTS/ProcessAudio.py\<close> raises no exception of
  its own; every failure is an exception of a library it calls.
\<close>

datatype error = ValueError | TypeError | ParameterError | RuntimeError

definition and_then :: "error + 'a \<Rightarrow> ('a \<Rightarrow> error + 'b) \<Rightarrow> error + 'b" where
  "and_then m f = (case m of Inl e \<Rightarrow> Inl e | Inr v \<Rightarrow> f v)"

text \<open>
  A numpy or torch float: a finite value or one of the three special values. Finite
  arithmetic is exact (rounding and overflow are not modelled, nor is the sign of zero);
  the special values follow IEEE 754: \<open>0 / 0\<close>, \<open>0 * inf\<close>, \<open>inf - inf\<close> and
  \<open>inf / inf\<close> are NaN, and NaN is absorbing.
\<close>

datatype sample = Fin real | PInf | NInf | NaN

definition signed_inf :: "real \<Rightarrow> sample" where
  "signed_inf a = (if 0 < a then PInf else if a < 0 then NInf else NaN)"

fun fneg :: "sample \<Rightarrow> sample" where
  "fneg (Fin a) = Fin (- a)"
| "fneg PInf = NInf"
| "fneg NInf = PInf"
| "fneg NaN = NaN"

fun fabs :: "sample \<Rightarrow> sample" where
  "fabs (Fin a) = Fin \<bar>a\<bar>"
| "fabs PInf = PInf"
| "fabs NInf = PInf"
| "fabs NaN = NaN"

fun fadd :: "sample \<Rightarrow> sample \<Rightarrow> sample" where
  "fadd (Fin a) (Fin b) = Fin (a + b)"
| "fadd NaN _ = NaN"
| "fadd _ NaN = NaN"
| "fadd PInf NInf = NaN"
| "fadd NInf PInf = NaN"
| "fadd PInf _ = PInf"
| "fadd _ PInf = PInf"
| "fadd NInf _ = NInf"
| "fadd _ NInf = NInf"

definition fsub :: "sample \<Rightarrow> sample \<Rightarrow> sample" where
  "fsub a b = fadd a (fneg b)"

fun fmul :: "sample \<Rightarrow> sample \<Rightarrow> sample" where
  "fmul (Fin a) (Fin b) = Fin (a * b)"
| "fmul NaN _ = NaN"
| "fmul _ NaN = NaN"
| "fmul (Fin a) PInf = signed_inf a"
| "fmul (Fin a) NInf = signed_inf (- a)"
| "fmul PInf (Fin b) = signed_inf b"
| "fmul NInf (Fin b) = signed_inf (- b)"
| "fmul PInf PInf = PInf"
| "fmul NInf NInf = PInf"
| "fmul PInf NInf = NInf"
| "fmul NInf PInf = NInf"

fun fdiv :: "sample \<Rightarrow> sample \<Rightarrow> sample" where
  "fdiv (Fin a) (Fin b) = (if b \<noteq> 0 then Fin (a / b) else signed_inf a)"
| "fdiv NaN _ = NaN"
| "fdiv _ NaN = NaN"
| "fdiv (Fin a) _ = Fin 0"
| "fdiv PInf (Fin b) = (if 0 \<le> b then PInf else NInf)"
| "fdiv NInf (Fin b) = (if 0 \<le> b then NInf else PInf)"
| "fdiv _ _ = NaN"

text \<open>\<^verbatim>\<open>numpy.maximum\<close> and \<^verbatim>\<open>numpy.amax\<close> propagate NaN.\<close>

fun fmaximum :: "sample \<Rightarrow> sample \<Rightarrow> sample" where
  "fmaximum (Fin a) (Fin b) = Fin (max a b)"
| "fmaximum NaN _ = NaN"
| "fmaximum _ NaN = NaN"
| "fmaximum PInf _ = PInf"
| "fmaximum _ PInf = PInf"
| "fmaximum NInf b = b"
| "fmaximum a NInf = a"

text \<open>\<^verbatim>\<open>numpy.power(10.0, x)\<close>.\<close>

fun fpow10 :: "sample \<Rightarrow> sample" where
  "fpow10 (Fin a) = Fin (10 powr a)"
| "fpow10 PInf = PInf"
| "fpow10 NInf = Fin 0"
| "fpow10 NaN = NaN"

text \<open>
  \<^verbatim>\<open>numpy.log10\<close>: \<open>-inf\<close> at zero, NaN below zero; \<open>inf\<close> at \<open>inf\<close>; NaN at
  \<open>-inf\<close> and at NaN.
\<close>

definition flog10 :: "real \<Rightarrow> sample" where
  "flog10 v = (if 0 < v then Fin (log 10 v) else if v = 0 then NInf else NaN)"

fun numpy_log10 :: "sample \<Rightarrow> sample" where
  "numpy_log10 (Fin v) = flog10 v"
| "numpy_log10 PInf = PInf"
| "numpy_log10 NInf = NaN"
| "numpy_log10 NaN = NaN"

text \<open>
  Single precision. The spectrogram is computed in \<^verbatim>\<open>float32\<close> and
  \<^verbatim>\<open>complex64\<close>, where a value overflows to an infinity: every real of magnitude
  \<open>2^128 - 2^103\<close> or more rounds to one. The rounding of the smaller values is not
  modelled.
\<close>

definition to_float32 :: "real \<Rightarrow> sample" where
  "to_float32 r = (if 2 ^ 128 - 2 ^ 103 \<le> \<bar>r\<bar> then signed_inf r else Fin r)"

fun store_float32 :: "sample \<Rightarrow> sample" where
  "store_float32 (Fin r) = to_float32 r"
| "store_float32 PInf = PInf"
| "store_float32 NInf = NInf"
| "store_float32 NaN = NaN"

definition fadd32 :: "sample \<Rightarrow> sample \<Rightarrow> sample" where
  "fadd32 a b = store_float32 (fadd a b)"

definition fmul32 :: "sample \<Rightarrow> sample \<Rightarrow> sample" where
  "fmul32 a b = store_float32 (fmul a b)"

text \<open>A \<^verbatim>\<open>complex64\<close> number is a pair of \<^verbatim>\<open>float32\<close> parts.\<close>

type_synonym complex64 = "sample \<times> sample"

definition to_complex64 :: "complex \<Rightarrow> complex64" where
  "to_complex64 z = (to_float32 (Re z), to_float32 (Im z))"

text \<open>
  \<^verbatim>\<open>numpy.abs\<close> of a \<^verbatim>\<open>complex64\<close> number: the hypotenuse of the parts, which is
  \<open>inf\<close> when a part is infinite.
\<close>

fun hypot32 :: "sample \<Rightarrow> sample \<Rightarrow> sample" where
  "hypot32 (Fin a) (Fin b) = to_float32 (sqrt (a\<^sup>2 + b\<^sup>2))"
| "hypot32 PInf _ = PInf"
| "hypot32 NInf _ = PInf"
| "hypot32 _ PInf = PInf"
| "hypot32 _ NInf = PInf"
| "hypot32 _ _ = NaN"

definition numpy_abs :: "complex64 \<Rightarrow> sample" where
  "numpy_abs z = hypot32 (fst z) (snd z)"

text \<open>
  An n-dimensional array as numpy stores it: the shape and the entries in row-major
  order. An array of numpy always satisfies \<open>wf_array\<close>.
\<close>

datatype 'a ndarray = NDArray (shape: "nat list") (flat: "'a list")

definition wf_array :: "'a ndarray \<Rightarrow> bool" where
  "wf_array x = (length (flat x) = prod_list (shape x))"

definition ndim :: "'a ndarray \<Rightarrow> nat" where
  "ndim x = length (shape x)"

definition map_array :: "('a \<Rightarrow> 'b) \<Rightarrow> 'a ndarray \<Rightarrow> 'b ndarray" where
  "map_array f x = NDArray (shape x) (map f (flat x))"

definition tabulate2 :: "nat \<Rightarrow> nat \<Rightarrow> (nat \<Rightarrow> nat \<Rightarrow> 'a) \<Rightarrow> 'a ndarray" where
  "tabulate2 r c f = NDArray [r, c] (map (\<lambda>k. f (k div c) (k mod c)) [0..<r * c])"

definition at2 :: "'a ndarray \<Rightarrow> nat \<Rightarrow> nat \<Rightarrow> 'a" where
  "at2 x i j = flat x ! (i * (shape x ! 1) + j)"

text \<open>
  \<^verbatim>\<open>numpy.transpose\<close>, \<^verbatim>\<open>.T\<close> and \<^verbatim>\<open>.transpose(0, 1)\<close>; the code applies them to
  2-D arrays only (a 1-D array is its own transpose).
\<close>

definition numpy_transpose :: "'a ndarray \<Rightarrow> 'a ndarray" where
  "numpy_transpose x =
     (case shape x of
        [r, c] \<Rightarrow> tabulate2 c r (\<lambda>i j. at2 x j i)
      | _ \<Rightarrow> x)"

text \<open>\<^verbatim>\<open>numpy.mean(y, axis=0)\<close>: the mean of an empty slice is NaN.\<close>

definition fsum :: "sample list \<Rightarrow> sample" where
  "fsum xs = foldr fadd xs (Fin 0)"

definition mean_axis0 :: "sample ndarray \<Rightarrow> sample ndarray" where
  "mean_axis0 y =
     (case shape y of
        [] \<Rightarrow> y
      | d # rest \<Rightarrow>
          NDArray rest
            (map (\<lambda>j. fdiv (fsum (map (\<lambda>i. flat y ! (i * prod_list rest + j)) [0..<d]))
                         (Fin (real d)))
               [0..<prod_list rest]))"

text \<open>\<^verbatim>\<open>numpy.amax\<close> raises ValueError on an empty array.\<close>

fun numpy_amax :: "sample list \<Rightarrow> error + sample" where
  "numpy_amax [] = Inl ValueError"
| "numpy_amax (v # vs) = Inr (foldl fmaximum v vs)"

text \<open>\<^verbatim>\<open>torch.Tensor(audio)\<close> changes the container, not the entries.\<close>

definition torch_Tensor :: "'a ndarray \<Rightarrow> 'a ndarray" where
  "torch_Tensor x = x"

section \<open>The libraries\<close>

text \<open>
  What the preprocessor takes from its libraries as black boxes: the voice activity
  detector and the resampler of torchaudio, the loudness meter of pyloudnorm (each
  constructed for a sample rate, each may raise), librosa's validation of an audio
  buffer, the entries of librosa's mel filterbank, and the integer a non-finite float
  is cast to.
\<close>

record externals =
  VoiceActivityDetection :: "nat \<Rightarrow> sample ndarray \<Rightarrow> error + sample ndarray"
  Meter_integrated_loudness :: "nat \<Rightarrow> sample ndarray \<Rightarrow> error + sample"
  Resample :: "nat \<Rightarrow> nat \<Rightarrow> sample ndarray \<Rightarrow> error + sample ndarray"
  valid_audio :: "sample ndarray \<Rightarrow> bool"
  filters_mel_weight :: "nat \<Rightarrow> nat \<Rightarrow> nat \<Rightarrow> real \<Rightarrow> real \<Rightarrow> nat \<Rightarrow> nat \<Rightarrow> real"
  int64_of_nonfinite :: "sample \<Rightarrow> int"

subsection \<open>torchaudio: mu-law companding\<close>

text \<open>\<^verbatim>\<open>.to(torch.int64)\<close> truncates towards zero.\<close>

definition to_int64 :: "real \<Rightarrow> int" where
  "to_int64 r = (if 0 \<le> r then \<lfloor>r\<rfloor> else \<lceil>r\<rceil>)"

text \<open>
  \<^verbatim>\<open>torchaudio.functional.mu_law_encoding\<close>:
  \<^verbatim>\<open>
  mu = quantization_channels - 1.0
  x_mu = torch.sign(x) * torch.log1p(mu * torch.abs(x)) / torch.log1p(mu)
  x_mu = ((x_mu + 1) / 2 * mu + 0.5).to(torch.int64)
  \<close>
\<close>

definition mu_law_encoding :: "externals \<Rightarrow> nat \<Rightarrow> sample \<Rightarrow> int" where
  "mu_law_encoding L quantization_channels v =
     (case v of
        Fin x \<Rightarrow>
          (let mu = real quantization_channels - 1;
               x_mu = sgn x * ln (1 + mu * \<bar>x\<bar>) / ln (1 + mu)
           in to_int64 ((x_mu + 1) / 2 * mu + 1 / 2))
      | _ \<Rightarrow> int64_of_nonfinite L v)"

text \<open>
  \<^verbatim>\<open>torchaudio.functional.mu_law_decoding\<close>:
  \<^verbatim>\<open>
  mu = quantization_channels - 1.0
  x = ((x_mu) / mu) * 2 - 1.0
  x = torch.sign(x) * (torch.exp(torch.abs(x) * torch.log1p(mu)) - 1.0) / mu
  \<close>
  In exact arithmetic the decoded value of an integer code is finite.
\<close>

definition mu_law_decoding :: "nat \<Rightarrow> int \<Rightarrow> real" where
  "mu_law_decoding quantization_channels c =
     (let mu = real quantization_channels - 1;
          x = (real_of_int c / mu) * 2 - 1
      in sgn x * (exp (\<bar>x\<bar> * ln (1 + mu)) - 1) / mu)"

definition MuLawEncoding :: "externals \<Rightarrow> nat \<Rightarrow> sample ndarray \<Rightarrow> int ndarray" where
  "MuLawEncoding L quantization_channels = map_array (mu_law_encoding L quantization_channels)"

definition MuLawDecoding :: "nat \<Rightarrow> int ndarray \<Rightarrow> real ndarray" where
  "MuLawDecoding quantization_channels = map_array (mu_law_decoding quantization_channels)"

subsection \<open>librosa and pyloudnorm\<close>

text \<open>
  \<^verbatim>\<open>librosa.to_mono(y)\<close>: validates the buffer, then averages over the first axis when
  there is more than one.
\<close>

definition lb_to_mono :: "externals \<Rightarrow> sample ndarray \<Rightarrow> error + sample ndarray" where
  "lb_to_mono L y =
     (if \<not> valid_audio L y then Inl ParameterError
      else if 1 < ndim y then Inr (mean_axis0 y)
      else Inr y)"

text \<open>
  \<^verbatim>\<open>pyloudnorm.normalize.loudness(data, input_loudness, target_loudness)\<close>:
  \<^verbatim>\<open>
  delta_loudness = target_loudness - input_loudness
  gain = np.power(10.0, delta_loudness / 20.0)
  output = gain * data
  if np.max(np.abs(output)) >= 1.0: warnings.warn(...)
  \<close>
\<close>

definition pyln_normalize_loudness ::
  "sample ndarray \<Rightarrow> sample \<Rightarrow> sample \<Rightarrow> error + sample ndarray" where
  "pyln_normalize_loudness data_in input_loudness target_loudness =
     (let delta_loudness = fsub target_loudness input_loudness;
          gain = fpow10 (fdiv delta_loudness (Fin 20));
          output = map_array (fmul gain) data_in
      in and_then (numpy_amax (map fabs (flat output))) (\<lambda>_. Inr output))"

text \<open>
  \<^verbatim>\<open>librosa.stft(y, n_fft, hop_length, win_length=None, window="hann",
  pad_mode="reflect")\<close> with the default \<^verbatim>\<open>center=True\<close>: the mono signal is padded by
  \<open>n_fft div 2\<close> reflected samples on both sides, cut into frames of \<open>n_fft\<close> samples
  every \<open>hop_length\<close> samples, and each frame, times the periodic Hann window, goes
  through the discrete Fourier transform, of which the bins \<open>0 .. n_fft div 2\<close> are
  kept. The result has one row per bin and one column per frame. The transform is
  computed in double precision and stored as \<^verbatim>\<open>complex64\<close>. The signal is a tensor
  of finite samples (librosa raises on any other).
\<close>

definition reflect_index :: "nat \<Rightarrow> int \<Rightarrow> nat" where
  "reflect_index len j =
     (if len \<le> 1 then 0
      else let period = 2 * (int len - 1); m = j mod period
           in nat (if m < int len then m else period - m))"

definition pad_reflect :: "nat \<Rightarrow> 'a list \<Rightarrow> 'a list" where
  "pad_reflect p y =
     map (\<lambda>i. y ! reflect_index (length y) (int i - int p)) [0..<length y + 2 * p]"

definition hann :: "nat \<Rightarrow> nat \<Rightarrow> real" where
  "hann n k = 1 / 2 - 1 / 2 * cos (2 * pi * real k / real n)"

definition n_frames :: "nat \<Rightarrow> nat \<Rightarrow> nat \<Rightarrow> nat" where
  "n_frames padded_len frame_length hop = 1 + (padded_len - frame_length) div hop"

definition stft_sum :: "nat \<Rightarrow> nat \<Rightarrow> real list \<Rightarrow> nat \<Rightarrow> nat \<Rightarrow> complex" where
  "stft_sum nfft hop padded k t =
     (\<Sum>n<nfft. complex_of_real (hann nfft n * padded ! (t * hop + n))
                 * cis (- (2 * pi * real k * real n / real nfft)))"

definition librosa_stft :: "real ndarray \<Rightarrow> nat \<Rightarrow> nat \<Rightarrow> error + complex64 ndarray" where
  "librosa_stft y nfft hop =
     (if ndim y \<noteq> 1 then Inl ParameterError
      else if nfft < 1 \<or> hop < 1 then Inl ParameterError
      else if flat y = [] \<and> 0 < nfft div 2 then Inl ValueError
      else let padded = pad_reflect (nfft div 2) (flat y)
           in if length padded < nfft then Inl ParameterError
              else Inr (tabulate2 (1 + nfft div 2) (n_frames (length padded) nfft hop)
                     (\<lambda>k t. to_complex64 (stft_sum nfft hop padded k t))))"

text \<open>
  \<^verbatim>\<open>librosa.filters.mel(sr, n_fft, n_mels, fmin, fmax)\<close>: a matrix of \<open>n_mels\<close> rows and
  \<open>1 + n_fft div 2\<close> columns of finite weights. It computes with \<open>sr\<close> as a number,
  so \<^verbatim>\<open>sr=None\<close> raises TypeError.
\<close>

definition librosa_filters_mel ::
  "externals \<Rightarrow> nat option \<Rightarrow> nat \<Rightarrow> nat \<Rightarrow> real \<Rightarrow> real \<Rightarrow> error + sample ndarray" where
  "librosa_filters_mel L sampling_rate nfft n_mels fmin fmax =
     (case sampling_rate of
        None \<Rightarrow> Inl TypeError
      | Some rate \<Rightarrow>
          Inr (tabulate2 n_mels (1 + nfft div 2)
                 (\<lambda>m k. Fin (filters_mel_weight L rate nfft n_mels fmin fmax m k))))"

text \<open>
  \<^verbatim>\<open>numpy.dot\<close> of two \<^verbatim>\<open>float32\<close> matrices: ValueError when the inner dimensions
  differ. The products are summed in the order of the index here; where terms of both
  signs come near the overflow, the order of the library may give another result.
\<close>

definition dot32 :: "sample list \<Rightarrow> sample" where
  "dot32 terms = foldl fadd32 (Fin 0) terms"

definition numpy_dot :: "sample ndarray \<Rightarrow> sample ndarray \<Rightarrow> error + sample ndarray" where
  "numpy_dot a b =
     (case (shape a, shape b) of
        ([n, k], [k', m]) \<Rightarrow>
          if k = k'
          then Inr (tabulate2 n m
                      (\<lambda>i j. dot32 (map (\<lambda>l. fmul32 (at2 a i l) (at2 b l j)) [0..<k])))
          else Inl ValueError
      | _ \<Rightarrow> Inl ValueError)"

section \<open>AudioPreprocessor\<close>

record AudioPreprocessor =
  sr :: nat
  new_sr :: "nat option"
  hop_length :: nat
  n_fft :: nat
  mel_buckets :: nat
  vad :: "sample ndarray \<Rightarrow> error + sample ndarray"
  mu_encode :: "sample ndarray \<Rightarrow> int ndarray"
  mu_decode :: "int ndarray \<Rightarrow> real ndarray"
  meter :: "sample ndarray \<Rightarrow> error + sample"
  final_sr :: nat
  resample :: "sample ndarray \<Rightarrow> error + sample ndarray"

text \<open>\<^verbatim>\<open>__init__(self, input_sr, output_sr=None, melspec_buckets=80, hop_length=256, n_fft=1024)\<close>\<close>

definition AudioPreprocessor_init ::
  "externals \<Rightarrow> nat \<Rightarrow> nat option \<Rightarrow> nat \<Rightarrow> nat \<Rightarrow> nat \<Rightarrow> AudioPreprocessor" where
  "AudioPreprocessor_init L input_sr output_sr melspec_buckets hop nfft =
     \<lparr> sr = input_sr,
       new_sr = output_sr,
       hop_length = hop,
       n_fft = nfft,
       mel_buckets = melspec_buckets,
       vad = VoiceActivityDetection L input_sr,
       mu_encode = MuLawEncoding L 256,
       mu_decode = MuLawDecoding 256,
       meter = Meter_integrated_loudness L input_sr,
       final_sr = (case output_sr of
                     None \<Rightarrow> input_sr
                   | Some out \<Rightarrow> if out \<noteq> input_sr then out else input_sr),
       resample = (case output_sr of
                     None \<Rightarrow> Inr
                   | Some out \<Rightarrow> if out \<noteq> input_sr then Resample L input_sr out else Inr) \<rparr>"

definition apply_mu_law :: "AudioPreprocessor \<Rightarrow> sample ndarray \<Rightarrow> int ndarray" where
  "apply_mu_law self audio = mu_encode self audio"

definition cut_silence_from_beginning ::
  "AudioPreprocessor \<Rightarrow> sample ndarray \<Rightarrow> error + sample ndarray" where
  "cut_silence_from_beginning self audio = vad self (torch_Tensor audio)"

definition to_mono :: "externals \<Rightarrow> sample ndarray \<Rightarrow> error + sample ndarray" where
  "to_mono L x =
     (if length (shape x) = 2 then lb_to_mono L (numpy_transpose x)
      else Inr x)"

definition normalize_loudness ::
  "AudioPreprocessor \<Rightarrow> sample ndarray \<Rightarrow> error + sample ndarray" where
  "normalize_loudness self audio =
     and_then (meter self audio) (\<lambda>loudness.
     and_then (pyln_normalize_loudness audio loudness (Fin (- 30))) (\<lambda>loud_normed.
     and_then (numpy_amax (map fabs (flat loud_normed))) (\<lambda>peak.
     Inr (map_array (\<lambda>v. fdiv v peak) loud_normed))))"

definition logmelfilterbank ::
  "externals \<Rightarrow> AudioPreprocessor \<Rightarrow> real ndarray \<Rightarrow> nat option \<Rightarrow> real option \<Rightarrow> real option
     \<Rightarrow> real \<Rightarrow> error + sample ndarray" where
  "logmelfilterbank L self audio sampling_rate fmin fmax eps =
     and_then (librosa_stft audio (n_fft self) (hop_length self)) (\<lambda>x_stft.
     let spc = numpy_transpose (map_array numpy_abs x_stft);
         fmin' = (case fmin of None \<Rightarrow> 0 | Some f \<Rightarrow> f)
     in and_then (case fmax of
                    Some f \<Rightarrow> Inr f
                  | None \<Rightarrow> (case sampling_rate of
                               None \<Rightarrow> Inl TypeError
                             | Some rate \<Rightarrow> Inr (real rate / 2))) (\<lambda>fmax'.
        and_then (librosa_filters_mel L sampling_rate (n_fft self) (mel_buckets self) fmin' fmax')
          (\<lambda>mel_basis.
        and_then (numpy_dot spc (numpy_transpose mel_basis)) (\<lambda>dotted.
        Inr (numpy_transpose
               (torch_Tensor (map_array numpy_log10 (map_array (fmaximum (Fin eps)) dotted))))))))"

text \<open>The defaults \<^verbatim>\<open>fmin=40, fmax=8000, eps=1e-10\<close>.\<close>

definition mel_spec_orig_sr ::
  "externals \<Rightarrow> AudioPreprocessor \<Rightarrow> real ndarray \<Rightarrow> error + sample ndarray" where
  "mel_spec_orig_sr L self audio =
     logmelfilterbank L self audio (Some (sr self)) (Some 40) (Some 8000) (1 / 10 ^ 10)"

definition mel_spec_new_sr ::
  "externals \<Rightarrow> AudioPreprocessor \<Rightarrow> real ndarray \<Rightarrow> error + sample ndarray" where
  "mel_spec_new_sr L self audio =
     logmelfilterbank L self audio (new_sr self) (Some 40) (Some 8000) (1 / 10 ^ 10)"

definition normalize_audio ::
  "externals \<Rightarrow> AudioPreprocessor \<Rightarrow> sample ndarray \<Rightarrow> error + sample ndarray" where
  "normalize_audio L self audio =
     and_then (to_mono L audio) (\<lambda>audio1.
     and_then (normalize_loudness self audio1) (\<lambda>audio2.
     and_then (cut_silence_from_beginning self audio2) (\<lambda>audio3.
     resample self audio3)))"

text \<open>A wave tensor is a float tensor or, after mu-law encoding, a tensor of integers.\<close>

datatype tensor = FloatTensor "sample ndarray" | LongTensor "int ndarray"

definition audio_to_wave_tensor ::
  "externals \<Rightarrow> AudioPreprocessor \<Rightarrow> sample ndarray \<Rightarrow> bool \<Rightarrow> bool \<Rightarrow> error + tensor" where
  "audio_to_wave_tensor L self audio normalize_flag mulaw =
     (if mulaw then
        (if normalize_flag then
           and_then (normalize_audio L self audio) (\<lambda>a. Inr (LongTensor (apply_mu_law self a)))
         else Inr (LongTensor (apply_mu_law self (torch_Tensor audio))))
      else
        (if normalize_flag then
           and_then (normalize_audio L self audio) (\<lambda>a. Inr (FloatTensor a))
         else Inr (FloatTensor (torch_Tensor audio))))"

definition audio_to_mel_spec_tensor ::
  "externals \<Rightarrow> AudioPreprocessor \<Rightarrow> sample ndarray \<Rightarrow> bool \<Rightarrow> error + sample ndarray" where
  "audio_to_mel_spec_tensor L self audio normalize_flag =
     (if normalize_flag then
        and_then (normalize_audio L self audio) (\<lambda>a.
          mel_spec_new_sr L self (mu_decode self (mu_encode self a)))
      else mel_spec_orig_sr L self (mu_decode self (mu_encode self (torch_Tensor audio))))"

section \<open>The normalisation chain, step by step\<close>

text \<open>
  The four steps of \<open>normalize_audio\<close> as the specification words them, to compare with
  the method above: the channel mean of a frame-by-channel array; the gain that brings
  the measured loudness to the target, followed by the division by the peak; the voice
  activity detector; the resampler, which is the identity when no output rate is set or
  the output rate is the input rate.
\<close>

definition channel_mean :: "sample ndarray \<Rightarrow> sample ndarray" where
  "channel_mean x =
     (let frames = shape x ! 0; channels = shape x ! 1
      in NDArray [frames]
           (map (\<lambda>i. fdiv (fsum (map (\<lambda>j. at2 x i j) [0..<channels])) (Fin (real channels)))
              [0..<frames]))"

definition mix_to_mono_if_multichannel ::
  "externals \<Rightarrow> sample ndarray \<Rightarrow> error + sample ndarray" where
  "mix_to_mono_if_multichannel L x =
     (if ndim x = 2 then
        (if valid_audio L (numpy_transpose x) then Inr (channel_mean x) else Inl ParameterError)
      else Inr x)"

definition loudness_gain :: "sample \<Rightarrow> sample \<Rightarrow> sample" where
  "loudness_gain measured target = fpow10 (fdiv (fsub target measured) (Fin 20))"

definition rescale_to_lufs_then_peak ::
  "externals \<Rightarrow> nat \<Rightarrow> sample \<Rightarrow> sample ndarray \<Rightarrow> error + sample ndarray" where
  "rescale_to_lufs_then_peak L rate target x =
     and_then (Meter_integrated_loudness L rate x) (\<lambda>measured.
     let rescaled = map_array (fmul (loudness_gain measured target)) x
     in and_then (numpy_amax (map fabs (flat rescaled))) (\<lambda>peak.
        Inr (map_array (\<lambda>v. fdiv v peak) rescaled)))"

definition resample_to_output_rate ::
  "externals \<Rightarrow> nat \<Rightarrow> nat option \<Rightarrow> sample ndarray \<Rightarrow> error + sample ndarray" where
  "resample_to_output_rate L input_sr output_sr x =
     (if output_sr = None \<or> output_sr = Some input_sr then Inr x
      else Resample L input_sr (the output_sr) x)"

definition normalize_audio_steps ::
  "externals \<Rightarrow> nat \<Rightarrow> nat option \<Rightarrow> sample ndarray \<Rightarrow> error + sample ndarray" where
  "normalize_audio_steps L input_sr output_sr x =
     and_then (mix_to_mono_if_multichannel L x) (\<lambda>mono.
     and_then (rescale_to_lufs_then_peak L input_sr (Fin (- 30)) mono) (\<lambda>normed.
     and_then (VoiceActivityDetection L input_sr normed) (\<lambda>trimmed.
     resample_to_output_rate L input_sr output_sr trimmed)))"

section \<open>Predicates and curves of the statements\<close>

text \<open>
  The companding curve of the mu-law codec with 256 channels and its inverse: the
  encoder quantises \<open>compand x\<close>, the decoder applies \<open>expand\<close> to the quantised value.
\<close>

definition compand :: "real \<Rightarrow> real" where
  "compand x = sgn x * ln (1 + 255 * \<bar>x\<bar>) / ln 256"

definition expand :: "real \<Rightarrow> real" where
  "expand y = sgn y * (exp (\<bar>y\<bar> * ln 256) - 1) / 255"

text \<open>A sample that is finite and lies in \<open>[-1, 1]\<close>.\<close>

definition in_unit_range :: "sample \<Rightarrow> bool" where
  "in_unit_range v = (case v of Fin x \<Rightarrow> - 1 \<le> x \<and> x \<le> 1 | _ \<Rightarrow> False)"

text \<open>A decoded value that differs from a finite sample by less than a tolerance.\<close>

definition close_to :: "real \<Rightarrow> sample \<Rightarrow> real \<Rightarrow> bool" where
  "close_to tol v d = (case v of Fin x \<Rightarrow> \<bar>d - x\<bar> < tol | _ \<Rightarrow> False)"

text \<open>A float that is a number not below a bound: not NaN, not \<open>-inf\<close>.\<close>

definition at_least :: "real \<Rightarrow> sample \<Rightarrow> bool" where
  "at_least b v = (case v of Fin r \<Rightarrow> b \<le> r | PInf \<Rightarrow> True | _ \<Rightarrow> False)"

text \<open>A filterbank of librosa has no negative weight.\<close>

definition nonnegative_weights :: "externals \<Rightarrow> bool" where
  "nonnegative_weights L =
     (\<forall>rate nfft n_mels fmin fmax m k. 0 \<le> filters_mel_weight L rate nfft n_mels fmin fmax m k)"

text \<open>A waveform whose samples, times the FFT size, stay within \<open>2^127\<close>.\<close>

definition within_float32 :: "nat \<Rightarrow> real ndarray \<Rightarrow> bool" where
  "within_float32 nfft audio = list_all (\<lambda>v. \<bar>v\<bar> * real nfft \<le> 2 ^ 127) (flat audio)"

section \<open>Concrete inputs\<close>

text \<open>
  Stand-ins for the black boxes, to evaluate the preprocessor on concrete inputs: a
  detector that finds no leading silence, a resampler that keeps the samples, a meter
  that reads \<open>-inf\<close> on silence (the logarithm of a zero mean square) and \<open>-30\<close> LUFS
  otherwise, a validation that accepts every buffer, a filterbank that is zero at the
  bin of frequency zero (which lies below \<open>fmin\<close>) and one elsewhere, and the cast
  of a non-finite float to the least 64-bit integer. The theorems below hold for every
  choice of the black boxes; the stand-ins only instantiate them.
\<close>

definition test_externals :: externals where
  "test_externals =
     \<lparr> VoiceActivityDetection = (\<lambda>rate x. Inr x),
       Meter_integrated_loudness =
         (\<lambda>rate x. Inr (if list_all (\<lambda>v. v = Fin 0) (flat x) then NInf else Fin (- 30))),
       Resample = (\<lambda>orig new x. Inr x),
       valid_audio = (\<lambda>x. True),
       filters_mel_weight = (\<lambda>rate nfft n_mels fmin fmax m k. if k = 0 then 0 else 1),
       int64_of_nonfinite = (\<lambda>v. - (2 ^ 63)) \<rparr>"

text \<open>The preprocessor of \<^verbatim>\<open>AudioPreprocessor(input_sr=16000)\<close>, all defaults.\<close>

definition test_preprocessor :: AudioPreprocessor where
  "test_preprocessor = AudioPreprocessor_init test_externals 16000 None 80 256 1024"

definition test_wave :: "sample ndarray" where
  "test_wave = NDArray [2] [Fin (1 / 2), Fin (- (1 / 4))]"

definition test_stereo :: "sample ndarray" where
  "test_stereo = NDArray [2, 2] [Fin 1, Fin 0, Fin (1 / 2), Fin (1 / 2)]"

definition test_volume :: "sample ndarray" where
  "test_volume = NDArray [1, 1, 2] [Fin (1 / 2), Fin (- (1 / 4))]"

text \<open>Digital silence of \<open>n\<close> samples.\<close>

definition silence :: "nat \<Rightarrow> sample ndarray" where
  "silence n = NDArray [n] (replicate n (Fin 0))"

text \<open>
  A preprocessor with two mel buckets, a hop of 2 and an FFT size of 4, one with the odd
  FFT size 1023, and a decoded waveform of four samples.
\<close>

definition small_preprocessor :: AudioPreprocessor where
  "small_preprocessor = AudioPreprocessor_init test_externals 16000 None 2 2 4"

definition odd_preprocessor :: AudioPreprocessor where
  "odd_preprocessor = AudioPreprocessor_init test_externals 16000 None 80 256 1023"

definition test_decoded :: "real ndarray" where
  "test_decoded = NDArray [4] [0, 1 / 2, - (1 / 4), 0]"

text \<open>\<^verbatim>\<open>torch.full((4,), 2.0 ** 127)\<close>.\<close>

definition test_loud :: "real ndarray" where
  "test_loud = NDArray [4] [2 ^ 127, 2 ^ 127, 2 ^ 127, 2 ^ 127]"

section \<open>Basic facts\<close>

lemma and_then_Inr [simp]: "and_then (Inr v) f = f v"
  by (simp add: and_then_def)

lemma and_then_Inl [simp]: "and_then (Inl e) f = Inl e"
  by (simp add: and_then_def)

lemma shape_tabulate2 [simp]: "shape (tabulate2 r c f) = [r, c]"
  by (simp add: tabulate2_def)

lemma length_flat_tabulate2 [simp]: "length (flat (tabulate2 r c f)) = r * c"
  by (simp add: tabulate2_def)

lemma index_in_range: "i < r \<Longrightarrow> j < c \<Longrightarrow> i * c + j < r * (c::nat)"
proof -
  assume a: "i < r" "j < c"
  then have "i * c + j < i * c + c" by simp
  also have "\<dots> = Suc i * c" by simp
  also have "\<dots> \<le> r * c" using a(1) by (intro mult_le_mono1) simp
  finally show ?thesis .
qed

lemma at2_tabulate2: "i < r \<Longrightarrow> j < c \<Longrightarrow> at2 (tabulate2 r c f) i j = f i j"
  using index_in_range [of i r j c]
  by (simp add: at2_def tabulate2_def)

lemma flat_tabulate2_nth:
  "i < r \<Longrightarrow> j < c \<Longrightarrow> flat (tabulate2 r c f) ! (i * c + j) = f i j"
  using at2_tabulate2 [of i r j c f] by (simp add: at2_def)

lemma two_dimensional: "length (shape x) = 2 \<Longrightarrow> \<exists>n c. shape x = [n, c]"
  by (cases "shape x"; simp) (metis Suc_length_conv length_0_conv)

lemma tabulate2_cong:
  assumes "\<And>i j. i < r \<Longrightarrow> j < c \<Longrightarrow> f i j = g i j"
  shows "tabulate2 r c f = tabulate2 r c g"
proof -
  have "f (k div c) (k mod c) = g (k div c) (k mod c)" if "k < r * c" for k
  proof -
    have c: "0 < c" using that by (cases c) simp_all
    have "k div c < r" using that by (simp add: less_mult_imp_div_less)
    then show ?thesis using c by (intro assms) simp_all
  qed
  then show ?thesis by (simp add: tabulate2_def)
qed

lemma numpy_transpose_tabulate2:
  "numpy_transpose (tabulate2 r c f) = tabulate2 c r (\<lambda>i j. f j i)"
proof -
  have "numpy_transpose (tabulate2 r c f) = tabulate2 c r (\<lambda>i j. at2 (tabulate2 r c f) j i)"
    by (simp add: numpy_transpose_def)
  also have "\<dots> = tabulate2 c r (\<lambda>i j. f j i)"
    by (rule tabulate2_cong) (simp add: at2_tabulate2)
  finally show ?thesis .
qed

lemma map_array_tabulate2:
  "map_array h (tabulate2 r c f) = tabulate2 r c (\<lambda>i j. h (f i j))"
  by (simp add: map_array_def tabulate2_def)

lemma numpy_dot_tabulate2:
  "numpy_dot (tabulate2 n k f) (tabulate2 k m g) =
     Inr (tabulate2 n m (\<lambda>i j. dot32 (map (\<lambda>l. fmul32 (f i l) (g l j)) [0..<k])))"
proof -
  have terms: "map (\<lambda>l. fmul32 (at2 (tabulate2 n k f) i l) (at2 (tabulate2 k m g) l j)) [0..<k]
               = map (\<lambda>l. fmul32 (f i l) (g l j)) [0..<k]" if "i < n" "j < m" for i j
    using that by (intro map_cong refl) (simp add: at2_tabulate2)
  have "tabulate2 n m
          (\<lambda>i j. dot32 (map (\<lambda>l. fmul32 (at2 (tabulate2 n k f) i l) (at2 (tabulate2 k m g) l j))
                           [0..<k]))
        = tabulate2 n m (\<lambda>i j. dot32 (map (\<lambda>l. fmul32 (f i l) (g l j)) [0..<k]))"
    by (rule tabulate2_cong) (simp only: terms)
  then show ?thesis by (simp add: numpy_dot_def)
qed

lemma flat_map_array [simp]: "flat (map_array f x) = map f (flat x)"
  by (simp add: map_array_def)

lemma shape_map_array [simp]: "shape (map_array f x) = shape x"
  by (simp add: map_array_def)

lemma mu_fields [simp]:
  "mu_encode (AudioPreprocessor_init L input_sr output_sr mb hop nfft) = MuLawEncoding L 256"
  "mu_decode (AudioPreprocessor_init L input_sr output_sr mb hop nfft) = MuLawDecoding 256"
  by (simp_all add: AudioPreprocessor_init_def)

section \<open>Mono mixdown\<close>

lemma mean_axis0_transpose:
  assumes "shape x = [n, c]"
  shows "mean_axis0 (numpy_transpose x) = channel_mean x"
proof -
  have t: "numpy_transpose x = tabulate2 c n (\<lambda>i j. at2 x j i)"
    using assms by (simp add: numpy_transpose_def)
  have inner: "map (\<lambda>i. flat (tabulate2 c n (\<lambda>i j. at2 x j i)) ! (i * n + j)) [0..<c]
             = map (\<lambda>i. at2 x j i) [0..<c]" if "j < n" for j
    using that by (intro map_cong refl) (simp add: flat_tabulate2_nth)
  show ?thesis
    unfolding t using assms
    by (simp add: mean_axis0_def channel_mean_def inner cong: map_cong)
qed

lemma to_mono_mix: "to_mono L x = mix_to_mono_if_multichannel L x"
proof (cases "length (shape x) = 2")
  case True
  then obtain n c where s: "shape x = [n, c]"
    using two_dimensional by blast
  have nd: "ndim (numpy_transpose x) = 2"
    using s by (simp add: ndim_def numpy_transpose_def)
  show ?thesis
    using True s nd
    by (simp add: to_mono_def mix_to_mono_if_multichannel_def lb_to_mono_def ndim_def
        mean_axis0_transpose)
next
  case False
  then show ?thesis
    by (simp add: to_mono_def mix_to_mono_if_multichannel_def ndim_def)
qed

lemma to_mono_not_2d: "length (shape x) \<noteq> 2 \<Longrightarrow> to_mono L x = Inr x"
  by (simp add: to_mono_def)

lemma shape_mean_axis0_transpose:
  "shape x = [n, c] \<Longrightarrow> shape (mean_axis0 (numpy_transpose x)) = [n]"
  by (simp add: mean_axis0_def numpy_transpose_def)

lemma to_mono_result_not_2d:
  assumes "to_mono L x = Inr y"
  shows "length (shape y) \<noteq> 2"
proof (cases "length (shape x) = 2")
  case True
  then obtain n c where s: "shape x = [n, c]"
    using two_dimensional by blast
  have "ndim (numpy_transpose x) = 2"
    using s by (simp add: ndim_def numpy_transpose_def)
  with assms True have "y = mean_axis0 (numpy_transpose x)"
    by (simp add: to_mono_def lb_to_mono_def split: if_splits)
  then show ?thesis using shape_mean_axis0_transpose [OF s] by simp
next
  case False
  with assms show ?thesis by (simp add: to_mono_def)
qed

text \<open>
  C8: \<open>to_mono\<close> returns a 1-D array as it is, and applying it twice is applying it
  once: on its own result it changes nothing, and where it raises it raises the same
  error. This holds for every array, of one, two or any other number of dimensions.
\<close>

theorem to_mono_idempotent:
  "(ndim x = 1 \<longrightarrow> to_mono L x = Inr x)
   \<and> and_then (to_mono L x) (to_mono L) = to_mono L x"
proof (intro conjI impI)
  assume "ndim x = 1"
  then show "to_mono L x = Inr x" by (simp add: to_mono_not_2d ndim_def)
next
  show "and_then (to_mono L x) (to_mono L) = to_mono L x"
  proof (cases "to_mono L x")
    case (Inl e)
    then show ?thesis by simp
  next
    case (Inr y)
    then show ?thesis using to_mono_result_not_2d [OF Inr] by (simp add: to_mono_not_2d)
  qed
qed

theorem to_mono_idempotent_witness:
  "ndim test_wave = 1 \<and> to_mono test_externals test_wave = Inr test_wave
   \<and> ndim test_stereo = 2
   \<and> and_then (to_mono test_externals test_stereo) (to_mono test_externals)
       = to_mono test_externals test_stereo"
  using to_mono_idempotent [of test_wave test_externals]
    to_mono_idempotent [of test_stereo test_externals]
  by (simp add: ndim_def test_wave_def test_stereo_def)



theorem to_mono_unsupported_dimension_counterexample:
  "ndim test_volume = 3 \<and> to_mono test_externals test_volume = Inr test_volume"
  by (simp add: ndim_def test_volume_def to_mono_def)

section \<open>The normalisation chain\<close>

lemma normalize_loudness_rescale:
  "normalize_loudness (AudioPreprocessor_init L input_sr output_sr mb hop nfft) x =
     rescale_to_lufs_then_peak L input_sr (Fin (- 30)) x"
proof (cases "Meter_integrated_loudness L input_sr x")
  case (Inl e)
  then show ?thesis
    by (simp add: normalize_loudness_def rescale_to_lufs_then_peak_def AudioPreprocessor_init_def)
next
  case (Inr l)
  show ?thesis
  proof (cases "numpy_amax (map fabs (flat (map_array (fmul (loudness_gain l (Fin (- 30)))) x)))")
    case (Inl e)
    then show ?thesis using Inr
      by (simp add: normalize_loudness_def rescale_to_lufs_then_peak_def
          AudioPreprocessor_init_def pyln_normalize_loudness_def loudness_gain_def Let_def)
  next
    case (Inr p)
    then show ?thesis using \<open>Meter_integrated_loudness L input_sr x = Inr l\<close>
      by (simp add: normalize_loudness_def rescale_to_lufs_then_peak_def
          AudioPreprocessor_init_def pyln_normalize_loudness_def loudness_gain_def Let_def)
  qed
qed

lemma resample_init:
  "resample (AudioPreprocessor_init L input_sr output_sr mb hop nfft) x =
     resample_to_output_rate L input_sr output_sr x"
  by (cases output_sr) (simp_all add: AudioPreprocessor_init_def resample_to_output_rate_def)

lemma normalize_audio_test_wave:
  "normalize_audio test_externals test_preprocessor test_wave =
     Inr (NDArray [2] [Fin 1, Fin (- (1 / 2))])"
  by (simp add: normalize_audio_def test_preprocessor_def test_wave_def test_externals_def
      to_mono_def normalize_loudness_def AudioPreprocessor_init_def pyln_normalize_loudness_def
      map_array_def fsub_def cut_silence_from_beginning_def torch_Tensor_def)

text \<open>
  C1: for every input array, \<open>normalize_audio\<close> of a preprocessor built by the
  constructor is the chain of the four steps in their order and nothing else: the
  mixdown of a 2-D array to the mean of its channels; the rescaling by the gain that
  brings the loudness measured at the input rate to -30 LUFS, then the division by the
  peak absolute amplitude; the voice activity detector at the input rate; the resampling
  from the input rate to the output rate, the identity when the output rate is unset or
  equal to the input rate. An error of a step ends the chain.
\<close>

theorem normalize_audio_is_the_four_steps:
  "normalize_audio L (AudioPreprocessor_init L input_sr output_sr mb hop nfft) audio =
     normalize_audio_steps L input_sr output_sr audio"
  unfolding normalize_audio_def normalize_audio_steps_def to_mono_mix
    normalize_loudness_rescale resample_init cut_silence_from_beginning_def torch_Tensor_def
  by (simp add: AudioPreprocessor_init_def)

theorem normalize_audio_is_the_four_steps_witness:
  "normalize_audio_steps test_externals 16000 None test_wave =
     Inr (NDArray [2] [Fin 1, Fin (- (1 / 2))])"
  using normalize_audio_is_the_four_steps [of test_externals 16000 None 80 256 1024 test_wave]
    normalize_audio_test_wave
  by (simp add: test_preprocessor_def)

subsection \<open>Silence\<close>

lemma fmul_zero: "fmul g (Fin 0) = Fin 0 \<or> fmul g (Fin 0) = NaN"
  by (cases g) (simp_all add: signed_inf_def)

lemma foldl_fmaximum_same:
  "z = Fin 0 \<or> z = NaN \<Longrightarrow> foldl fmaximum z (replicate n z) = z"
  by (induction n) auto

lemma all_zero_replicate:
  "list_all (\<lambda>v. v = Fin 0) xs \<Longrightarrow> xs = replicate (length xs) (Fin 0)"
  by (induction xs) simp_all

lemma numpy_amax_same:
  assumes "z = Fin 0 \<or> z = NaN" "0 < n"
  shows "numpy_amax (replicate n z) = Inr z"
proof -
  obtain m where n: "n = Suc m" using assms(2) by (cases n) simp_all
  show ?thesis unfolding n using foldl_fmaximum_same [OF assms(1)] by simp
qed

lemma divide_by_own_peak:
  "z = Fin 0 \<or> z = NaN \<Longrightarrow> fdiv z (fabs z) = NaN"
  by (auto simp: signed_inf_def)

text \<open>
  C2, on the code: \<open>normalize_loudness\<close> has no floor for silence. On a non-empty
  waveform of zeros, whatever loudness the meter reports, the rescaled samples are zero
  or NaN, so is their peak, the division by the peak is carried out all the same, and
  every sample of the result is NaN; \<open>normalize_audio\<close> hands that array to the voice
  activity detector.
\<close>

theorem normalize_loudness_of_silence:
  assumes "meter self audio = Inr loudness"
    and "flat audio \<noteq> []"
    and "list_all (\<lambda>v. v = Fin 0) (flat audio)"
  shows "normalize_loudness self audio =
           Inr (NDArray (shape audio) (replicate (length (flat audio)) NaN))
         \<and> (ndim audio \<noteq> 2 \<longrightarrow>
              normalize_audio L self audio =
                and_then (cut_silence_from_beginning self
                            (NDArray (shape audio) (replicate (length (flat audio)) NaN)))
                  (resample self))"
proof -
  let ?n = "length (flat audio)"
  let ?gain = "fpow10 (fdiv (fsub (Fin (- 30)) loudness) (Fin 20))"
  let ?z = "fmul ?gain (Fin 0)"
  have n: "0 < ?n" using assms(2) by simp
  have fl: "flat audio = replicate ?n (Fin 0)"
    by (rule all_zero_replicate [OF assms(3)])
  have z: "?z = Fin 0 \<or> ?z = NaN" by (rule fmul_zero)
  then have az: "fabs ?z = Fin 0 \<or> fabs ?z = NaN" by auto
  have scaled: "map (fmul ?gain) (flat audio) = replicate ?n ?z"
    by (subst fl) simp
  have peak: "numpy_amax (map fabs (map (fmul ?gain) (flat audio))) = Inr (fabs ?z)"
    unfolding scaled using numpy_amax_same [OF az n] by simp
  have py: "pyln_normalize_loudness audio loudness (Fin (- 30)) =
              Inr (map_array (fmul ?gain) audio)"
    using peak by (simp add: pyln_normalize_loudness_def Let_def)
  have "normalize_loudness self audio =
          Inr (map_array (\<lambda>v. fdiv v (fabs ?z)) (map_array (fmul ?gain) audio))"
    using assms(1) py peak by (simp add: normalize_loudness_def)
  also have "map_array (\<lambda>v. fdiv v (fabs ?z)) (map_array (fmul ?gain) audio) =
               NDArray (shape audio) (replicate ?n NaN)"
    using scaled divide_by_own_peak [OF z] by (simp add: map_array_def)
  finally have nl: "normalize_loudness self audio = Inr (NDArray (shape audio) (replicate ?n NaN))" .
  then show ?thesis
    by (simp add: normalize_audio_def to_mono_def ndim_def)
qed

theorem normalize_loudness_of_silence_witness:
  "meter test_preprocessor (silence 3) = Inr NInf
   \<and> normalize_loudness test_preprocessor (silence 3) = Inr (NDArray [3] [NaN, NaN, NaN])
   \<and> normalize_audio test_externals test_preprocessor (silence 3) =
       Inr (NDArray [3] [NaN, NaN, NaN])"
proof -
  have m: "meter test_preprocessor (silence 3) = Inr NInf"
    by (simp add: test_preprocessor_def AudioPreprocessor_init_def test_externals_def silence_def
        list_all_iff)
  have f: "flat (silence 3) \<noteq> []" by (simp add: silence_def)
  have a: "list_all (\<lambda>v. v = Fin 0) (flat (silence 3))"
    by (simp add: silence_def list_all_iff)
  have r: "replicate 3 NaN = [NaN, NaN, NaN]" by (simp add: numeral_3_eq_3)
  have d: "ndim (silence 3) \<noteq> 2" by (simp add: ndim_def silence_def)
  have v: "vad test_preprocessor = Inr" "resample test_preprocessor = Inr"
    by (simp_all add: test_preprocessor_def AudioPreprocessor_init_def test_externals_def fun_eq_iff)
  show ?thesis
    using m d normalize_loudness_of_silence [OF m f a, of test_externals]
    by (simp add: silence_def r cut_silence_from_beginning_def torch_Tensor_def v)
qed

section \<open>Mu-law companding\<close>

lemma ln256_pos: "0 < ln (256::real)"
  by simp

lemma ln2_upper: "ln (2::real) \<le> 6984 / 10000"
proof -
  have "(2::real) \<le> (1 + 1746 / 10000 + (1746 / 10000)\<^sup>2 / 2) ^ 4"
    by (simp add: power2_eq_square power4_eq_xxxx)
  also have "\<dots> \<le> exp (1746 / 10000) ^ 4"
    by (intro power_mono exp_lower_Taylor_quadratic) simp_all
  also have "\<dots> = exp (of_nat 4 * (1746 / 10000))"
    by (simp only: exp_of_nat_mult)
  also have "\<dots> = exp (6984 / 10000)" by simp
  finally have "ln (2::real) \<le> ln (exp (6984 / 10000))"
    by (simp only: ln_le_cancel_iff exp_gt_zero zero_less_numeral)
  then show ?thesis by simp
qed

lemma ln256_eq: "ln (256::real) = 8 * ln 2"
proof -
  have "ln ((2::real) ^ 8) = real 8 * ln 2" by (rule ln_realpow)
  then show ?thesis by simp
qed

lemma ln256_upper: "ln (256::real) \<le> 55872 / 10000"
  using ln2_upper by (simp add: ln256_eq)

lemma compand_range:
  assumes "\<bar>x\<bar> \<le> 1"
  shows "\<bar>compand x\<bar> \<le> 1"
proof -
  have a: "0 \<le> ln (1 + 255 * \<bar>x\<bar>)" by simp
  have "ln (1 + 255 * \<bar>x\<bar>) \<le> ln 256"
    using assms by (subst ln_le_cancel_iff) simp_all
  then have "ln (1 + 255 * \<bar>x\<bar>) / ln 256 \<le> 1"
    using ln256_pos by (simp add: divide_le_eq)
  moreover have "\<bar>compand x\<bar> = \<bar>sgn x\<bar> * (ln (1 + 255 * \<bar>x\<bar>) / ln 256)"
    using a ln256_pos by (simp add: compand_def abs_mult abs_divide)
  moreover have "\<bar>sgn x\<bar> \<le> 1" by (simp add: abs_sgn_eq)
  moreover have "0 \<le> ln (1 + 255 * \<bar>x\<bar>) / ln 256" using a ln256_pos by simp
  ultimately show ?thesis
    by (metis (no_types, opaque_lifting) abs_ge_zero mult_mono mult_1 order_trans mult_le_one)
qed

lemma expand_compand: "expand (compand x) = x"
proof -
  have pos: "0 \<le> ln (1 + 255 * \<bar>x\<bar>) / ln 256" using ln256_pos by simp
  have z: "ln (1 + 255 * \<bar>x\<bar>) = 0 \<longleftrightarrow> x = 0"
    by (subst ln_eq_zero_iff) auto
  consider "x = 0" | "0 < x" | "x < 0" by linarith
  then show ?thesis
  proof cases
    case 1
    then show ?thesis by (simp add: expand_def compand_def)
  next
    case 2
    then have l: "0 < ln (1 + 255 * x)" by (intro ln_gt_zero) simp
    have "compand x = ln (1 + 255 * x) / ln 256" using 2 by (simp add: compand_def)
    moreover have "0 < ln (1 + 255 * x) / ln 256" using l ln256_pos by simp
    ultimately show ?thesis using 2 l by (simp add: expand_def)
  next
    case 3
    then have l: "0 < ln (1 + 255 * - x)" by (intro ln_gt_zero) simp
    have c: "compand x = - (ln (1 + 255 * - x) / ln 256)" using 3 by (simp add: compand_def)
    have "0 < ln (1 + 255 * - x) / ln 256" using l ln256_pos by simp
    then show ?thesis unfolding c using 3 l by (simp add: expand_def)
  qed
qed

lemma expand_nonneg: "0 \<le> y \<Longrightarrow> expand y = (exp (y * ln 256) - 1) / 255"
  by (cases "y = 0") (simp_all add: expand_def)

lemma expand_nonpos: "y \<le> 0 \<Longrightarrow> expand y = - ((exp (- y * ln 256) - 1) / 255)"
  by (cases "y = 0") (simp_all add: expand_def field_simps)

lemma exp_diff_bound:
  assumes "0 \<le> b" "b \<le> a" "a \<le> (1::real)"
  shows "exp (a * ln 256) - exp (b * ln 256) \<le> 256 * ln 256 * (a - b)"
    and "0 \<le> exp (a * ln 256) - exp (b * ln 256)"
proof -
  let ?c = "ln (256::real)"
  have c: "0 < ?c" by simp
  have s: "0 \<le> (a - b) * ?c" using assms c by simp
  have "exp (b * ?c) = exp (a * ?c) * exp (- ((a - b) * ?c))"
    by (simp add: exp_add [symmetric] algebra_simps)
  then have eq: "exp (a * ?c) - exp (b * ?c) = exp (a * ?c) * (1 - exp (- ((a - b) * ?c)))"
    by (simp add: algebra_simps)
  have one: "1 - exp (- ((a - b) * ?c)) \<le> (a - b) * ?c"
    using exp_ge_add_one_self [of "- ((a - b) * ?c)"] by simp
  have "a * ?c \<le> ?c" using assms c by simp
  then have "exp (a * ?c) \<le> exp ?c" by (simp only: exp_le_cancel_iff)
  moreover have "exp ?c = 256" by simp
  ultimately have top: "exp (a * ?c) \<le> 256" by (simp only:)
  have "exp (a * ?c) * (1 - exp (- ((a - b) * ?c))) \<le> exp (a * ?c) * ((a - b) * ?c)"
    using one by (intro mult_left_mono) simp_all
  also have "\<dots> \<le> 256 * ((a - b) * ?c)"
    using top s by (intro mult_right_mono) simp_all
  finally show "exp (a * ?c) - exp (b * ?c) \<le> 256 * ?c * (a - b)"
    unfolding eq by (simp add: algebra_simps)
  have "b * ?c \<le> a * ?c" using assms c by simp
  then show "0 \<le> exp (a * ?c) - exp (b * ?c)" by simp
qed

lemma expand_increase:
  assumes "- 1 \<le> b" "b \<le> a" "a \<le> 1"
  shows "0 \<le> expand a - expand b \<and> expand a - expand b \<le> 256 * ln 256 / 255 * (a - b)"
proof -
  let ?c = "ln (256::real)"
  consider "0 \<le> b" | "a \<le> 0" | "b < 0" "0 < a" by linarith
  then show ?thesis
  proof cases
    case 1
    then have "0 \<le> a" using assms by simp
    then show ?thesis
      using exp_diff_bound [of b a] 1 assms
      by (simp add: expand_nonneg diff_divide_distrib [symmetric] divide_le_eq)
  next
    case 2
    then have "b \<le> 0" using assms by simp
    then show ?thesis
      using exp_diff_bound [of "- a" "- b"] 2 assms
      by (simp add: expand_nonpos diff_divide_distrib [symmetric] divide_le_eq)
  next
    case 3
    have pa: "exp (a * ?c) - 1 \<le> 256 * ?c * a" "0 \<le> exp (a * ?c) - 1"
      using exp_diff_bound [of 0 a] 3 assms by simp_all
    have pb: "exp (- b * ?c) - 1 \<le> 256 * ?c * (- b)" "0 \<le> exp (- b * ?c) - 1"
      using exp_diff_bound [of 0 "- b"] 3 assms by simp_all
    define P where "P = (exp (a * ?c) - 1) + (exp (- b * ?c) - 1)"
    have e: "expand a - expand b = P / 255"
      using 3 by (simp add: P_def expand_nonneg expand_nonpos field_simps)
    have up: "P \<le> 256 * ?c * (a - b)"
      using pa(1) pb(1) by (simp add: P_def algebra_simps)
    have low: "0 \<le> P"
      unfolding P_def using pa(2) pb(2) by linarith
    have "P / 255 \<le> 256 * ?c * (a - b) / 255"
      using up by (intro divide_right_mono) simp_all
    then show ?thesis unfolding e using low by simp
  qed
qed

lemma expand_lipschitz:
  assumes "\<bar>a\<bar> \<le> 1" "\<bar>b\<bar> \<le> 1"
  shows "\<bar>expand a - expand b\<bar> \<le> 256 * ln 256 / 255 * \<bar>a - b\<bar>"
proof (cases "b \<le> a")
  case True
  then show ?thesis using expand_increase [of b a] assms by simp
next
  case False
  then show ?thesis using expand_increase [of a b] assms by simp
qed

lemma mu_law_encoding_compand:
  "mu_law_encoding L 256 (Fin x) = to_int64 ((compand x + 1) / 2 * 255 + 1 / 2)"
  by (simp add: mu_law_encoding_def compand_def)

lemma mu_law_decoding_expand:
  "mu_law_decoding 256 c = expand (real_of_int c / 255 * 2 - 1)"
  by (simp add: mu_law_decoding_def expand_def Let_def)

lemma quantise:
  assumes "\<bar>y\<bar> \<le> 1"
  defines "c \<equiv> to_int64 ((y + 1) / 2 * 255 + 1 / 2)"
  shows "0 \<le> c" "c \<le> 255" "\<bar>(real_of_int c / 255 * 2 - 1) - y\<bar> \<le> 1 / 255"
proof -
  let ?v = "(y + 1) / 2 * 255 + 1 / 2"
  have v: "1 / 2 \<le> ?v" "?v \<le> 255 + 1 / 2" using assms(1) by simp_all
  then have cf: "c = \<lfloor>?v\<rfloor>" by (simp add: c_def to_int64_def)
  show "0 \<le> c" using v cf by simp
  have "?v < 256" using v(2) by linarith
  then have "\<lfloor>?v\<rfloor> < 256" by (simp only: floor_less_iff of_int_numeral)
  then show "c \<le> 255" using cf by simp
  have lo: "real_of_int c \<le> ?v" unfolding cf by (rule of_int_floor_le)
  have hi: "?v < real_of_int c + 1" unfolding cf by (rule floor_correct [THEN conjunct2, simplified])
  show "\<bar>(real_of_int c / 255 * 2 - 1) - y\<bar> \<le> 1 / 255"
    using lo hi by (simp add: abs_le_iff field_simps)
qed

lemma mu_law_sample_round_trip:
  assumes "\<bar>x\<bar> \<le> 1"
  shows "0 \<le> mu_law_encoding L 256 (Fin x)"
    and "mu_law_encoding L 256 (Fin x) \<le> 255"
    and "\<bar>mu_law_decoding 256 (mu_law_encoding L 256 (Fin x)) - x\<bar> < 22 / 1000"
proof -
  let ?c = "mu_law_encoding L 256 (Fin x)"
  let ?y = "real_of_int ?c / 255 * 2 - 1"
  note q = quantise [OF compand_range [OF assms], folded mu_law_encoding_compand [of L x]]
  show "0 \<le> ?c" "?c \<le> 255" using q by simp_all
  have y: "\<bar>?y\<bar> \<le> 1" using q(1,2) by (simp add: abs_le_iff)
  have "\<bar>expand ?y - expand (compand x)\<bar> \<le> 256 * ln 256 / 255 * \<bar>?y - compand x\<bar>"
    by (rule expand_lipschitz [OF y compand_range [OF assms]])
  also have "\<dots> \<le> 256 * ln 256 / 255 * (1 / 255)"
    using q(3) by (intro mult_left_mono) simp_all
  also have "\<dots> \<le> 256 * (55872 / 10000) / 255 * (1 / 255)"
    using ln256_upper by simp
  also have "\<dots> < 22 / 1000" by simp
  finally show "\<bar>mu_law_decoding 256 ?c - x\<bar> < 22 / 1000"
    by (simp add: mu_law_decoding_expand expand_compand)
qed

lemma exp3: "exp (3::real) \<le> 27"
proof -
  have "exp (3::real) = exp (of_nat 3 * 1)" by simp
  also have "\<dots> = exp 1 ^ 3" by (simp only: exp_of_nat_mult)
  also have "\<dots> \<le> 3 ^ 3" by (intro power_mono exp_le) simp
  finally show ?thesis by simp
qed

lemma compand_near_one:
  assumes "99 / 100 \<le> x" "x \<le> 1"
  shows "254 / 255 \<le> compand x"
proof -
  let ?t = "1 + 255 * x"
  have t: "25345 / 100 \<le> ?t" "?t \<le> 256" using assms by simp_all
  then have tpos: "0 < ?t" by linarith
  have "exp 3 \<le> ?t" using exp3 t(1) by linarith
  then have l3: "3 \<le> ln ?t" using tpos by (simp only: ln_ge_iff)
  have "ln (256 / ?t) \<le> 256 / ?t - 1"
    using tpos by (intro ln_le_minus_one) simp
  also have "256 / ?t - 1 \<le> 101 / 10000"
    using t tpos by (simp add: field_simps)
  finally have "ln 256 - ln ?t \<le> 101 / 10000"
    using tpos by (simp add: ln_div)
  then have "254 * ln 256 \<le> 255 * ln ?t" using l3 by linarith
  then have "254 / 255 \<le> ln ?t / ln 256"
    using ln256_pos by (simp add: field_simps)
  moreover have "compand x = ln ?t / ln 256"
    using assms by (simp add: compand_def)
  ultimately show ?thesis by simp
qed

lemma mu_law_encoding_near_one:
  assumes "99 / 100 \<le> x" "x \<le> 1"
  shows "mu_law_encoding L 256 (Fin x) = 255"
proof -
  let ?v = "(compand x + 1) / 2 * 255 + 1 / 2"
  have ax: "\<bar>x\<bar> \<le> 1" using assms by simp
  have "255 \<le> ?v" using compand_near_one [OF assms] by (simp add: field_simps)
  then have "255 \<le> \<lfloor>?v\<rfloor>" by (simp only: le_floor_iff of_int_numeral)
  moreover have "0 \<le> ?v" using \<open>255 \<le> ?v\<close> by linarith
  ultimately have "255 \<le> mu_law_encoding L 256 (Fin x)"
    by (simp only: mu_law_encoding_compand to_int64_def if_True)
  then show ?thesis using mu_law_sample_round_trip(2) [OF ax, of L] by simp
qed

lemma mu_law_decoding_255: "mu_law_decoding 256 255 = 1"
  by (simp add: mu_law_decoding_expand expand_def)

lemma mu_law_error_near_one:
  assumes "99 / 100 \<le> x" "x \<le> 124 / 125"
  shows "1 / 128 < \<bar>mu_law_decoding 256 (mu_law_encoding L 256 (Fin x)) - x\<bar>"
proof -
  have "mu_law_encoding L 256 (Fin x) = 255"
    using assms by (intro mu_law_encoding_near_one) simp_all
  then show ?thesis using assms by (simp add: mu_law_decoding_255)
qed

text \<open>
  C9, as the code has it: for a waveform whose samples are finite and lie in \<open>[-1, 1]\<close>,
  the codes of \<open>mu_encode\<close> lie in \<open>[0, 255]\<close>, and \<open>mu_decode\<close> of the codes
  differs from the input by less than 0.022 at every sample (half a step of the
  companded scale, \<open>1 / 255\<close>, times the steepest slope of the expansion,
  \<open>256 * ln 256 / 255\<close>). The bound \<open>1 / 128\<close> of the claim fails on whole intervals:
  every sample between 0.99 and 0.992 is decoded to 1.
\<close>

theorem mu_law_codes_and_round_trip:
  assumes "list_all in_unit_range (flat w)"
  shows "list_all (\<lambda>c. 0 \<le> c \<and> c \<le> 255)
           (flat (mu_encode (AudioPreprocessor_init L input_sr output_sr mb hop nfft) w))
       \<and> list_all2 (close_to (22 / 1000)) (flat w)
           (flat (mu_decode (AudioPreprocessor_init L input_sr output_sr mb hop nfft)
                    (mu_encode (AudioPreprocessor_init L input_sr output_sr mb hop nfft) w)))
       \<and> shape (mu_decode (AudioPreprocessor_init L input_sr output_sr mb hop nfft)
                    (mu_encode (AudioPreprocessor_init L input_sr output_sr mb hop nfft) w))
           = shape w"
proof -
  have each: "0 \<le> mu_law_encoding L 256 v \<and> mu_law_encoding L 256 v \<le> 255
              \<and> close_to (22 / 1000) v (mu_law_decoding 256 (mu_law_encoding L 256 v))"
    if "v \<in> set (flat w)" for v
  proof -
    from that assms have "in_unit_range v" by (simp add: list_all_iff)
    then obtain x where v: "v = Fin x" and x: "\<bar>x\<bar> \<le> 1"
      by (cases v) (auto simp: in_unit_range_def)
    show ?thesis
      unfolding v using mu_law_sample_round_trip [OF x, of L] by (simp add: close_to_def)
  qed
  have codes: "list_all (\<lambda>c. 0 \<le> c \<and> c \<le> 255) (map (mu_law_encoding L 256) (flat w))"
    using each by (simp add: list_all_iff)
  have trip: "list_all2 (close_to (22 / 1000)) (flat w)
                (map (mu_law_decoding 256) (map (mu_law_encoding L 256) (flat w)))"
    using each by (simp add: list_all2_map2 list_all2_same)
  show ?thesis
    using codes trip by (simp add: MuLawEncoding_def MuLawDecoding_def)
qed

theorem mu_law_codes_and_round_trip_witness:
  "list_all in_unit_range (flat test_wave)
   \<and> list_all (\<lambda>c. 0 \<le> c \<and> c \<le> 255) (flat (mu_encode test_preprocessor test_wave))
   \<and> list_all2 (close_to (22 / 1000)) (flat test_wave)
        (flat (mu_decode test_preprocessor (mu_encode test_preprocessor test_wave)))
   \<and> shape (mu_decode test_preprocessor (mu_encode test_preprocessor test_wave)) = [2]"
proof -
  have h: "list_all in_unit_range (flat test_wave)"
    by (simp add: test_wave_def in_unit_range_def)
  show ?thesis
    using h mu_law_codes_and_round_trip [OF h, of test_externals 16000 None 80 256 1024]
    by (simp add: test_preprocessor_def test_wave_def)
qed

theorem mu_law_round_trip_counterexample:
  "in_unit_range (Fin (99 / 100))
   \<and> mu_encode test_preprocessor (NDArray [1] [Fin (99 / 100)]) = NDArray [1] [255]
   \<and> mu_decode test_preprocessor (NDArray [1] [255]) = NDArray [1] [1]
   \<and> \<not> close_to (1 / 128) (Fin (99 / 100)) 1
   \<and> (\<forall>x. \<not> (99 / 100 \<le> x \<and> x \<le> 124 / 125
             \<and> close_to (1 / 128) (Fin x)
                  (mu_law_decoding 256 (mu_law_encoding test_externals 256 (Fin x)))))"
proof -
  have a: "mu_law_encoding test_externals 256 (Fin (99 / 100)) = 255"
    by (rule mu_law_encoding_near_one) simp_all
  have b: "\<not> (99 / 100 \<le> x \<and> x \<le> 124 / 125
             \<and> close_to (1 / 128) (Fin x)
                  (mu_law_decoding 256 (mu_law_encoding test_externals 256 (Fin x))))" for x
    using mu_law_error_near_one [of x test_externals] by (auto simp: close_to_def)
  show ?thesis
    using a b
    by (simp add: test_preprocessor_def MuLawEncoding_def MuLawDecoding_def map_array_def
        mu_law_decoding_255 in_unit_range_def close_to_def)
qed

section \<open>The log-mel filterbank\<close>

lemma length_pad_reflect [simp]: "length (pad_reflect p y) = length y + 2 * p"
  by (simp add: pad_reflect_def)

lemma logmelfilterbank_result:
  assumes "logmelfilterbank L self audio rate fmin fmax eps = Inr m"
  shows "\<exists>rate' lo hi.
           m = tabulate2 (mel_buckets self)
                 (n_frames (length (flat audio) + 2 * (n_fft self div 2))
                    (n_fft self) (hop_length self))
                 (\<lambda>i j. numpy_log10 (fmaximum (Fin eps)
                    (dot32 (map (\<lambda>l. fmul32
                        (numpy_abs (to_complex64
                           (stft_sum (n_fft self) (hop_length self)
                              (pad_reflect (n_fft self div 2) (flat audio)) l j)))
                        (Fin (filters_mel_weight L rate' (n_fft self) (mel_buckets self) lo hi i l)))
                      [0..<1 + n_fft self div 2]))))
         \<and> flat audio \<noteq> [] \<and> 0 < n_fft self \<and> 0 < hop_length self
         \<and> n_fft self \<le> length (flat audio) + 2 * (n_fft self div 2)"
proof -
  let ?N = "n_fft self" and ?h = "hop_length self"
  let ?p = "pad_reflect (?N div 2) (flat audio)"
  from assms obtain s where s: "librosa_stft audio ?N ?h = Inr s"
    by (cases "librosa_stft audio ?N ?h") (simp_all add: logmelfilterbank_def)
  then have c: "0 < ?N" "0 < ?h" "\<not> (flat audio = [] \<and> 0 < ?N div 2)"
    "?N \<le> length (flat audio) + 2 * (?N div 2)"
    and f: "s = tabulate2 (1 + ?N div 2) (n_frames (length (flat audio) + 2 * (?N div 2)) ?N ?h)
                  (\<lambda>k t. to_complex64 (stft_sum ?N ?h ?p k t))"
    by (auto simp: librosa_stft_def Let_def split: if_splits)
  have ne: "flat audio \<noteq> []"
  proof
    assume e: "flat audio = []"
    with c(3) have "?N div 2 = 0" by simp
    with c(4) e c(1) show False by simp
  qed
  from assms s obtain rate' where r: "rate = Some rate'"
    by (cases rate; cases fmax)
       (simp_all add: logmelfilterbank_def librosa_filters_mel_def Let_def)
  show ?thesis
    using assms c(1,2,4) ne unfolding logmelfilterbank_def s r f
    by (cases fmax)
       (auto simp: Let_def librosa_filters_mel_def map_array_tabulate2
          numpy_transpose_tabulate2 numpy_dot_tabulate2 torch_Tensor_def)
qed

lemma logmelfilterbank_Inr:
  assumes "logmelfilterbank L self audio rate fmin fmax eps = Inr m"
  shows "\<exists>g. m = tabulate2 (mel_buckets self)
                 (n_frames (length (flat audio) + 2 * (n_fft self div 2))
                    (n_fft self) (hop_length self)) g"
  using logmelfilterbank_result [OF assms] by blast

lemma librosa_stft_succeeds:
  assumes "ndim y = 1" "0 < nfft" "0 < hop" "flat y \<noteq> []"
  shows "\<exists>f. librosa_stft y nfft hop =
           Inr (tabulate2 (1 + nfft div 2)
                  (n_frames (length (flat y) + 2 * (nfft div 2)) nfft hop) f)"
proof -
  have "0 < length (flat y)" using assms(4) by simp
  moreover have "nfft \<le> 1 + 2 * (nfft div 2)" by presburger
  ultimately have "\<not> length (flat y) + 2 * (nfft div 2) < nfft" by linarith
  then have "librosa_stft y nfft hop =
               Inr (tabulate2 (1 + nfft div 2)
                      (n_frames (length (flat y) + 2 * (nfft div 2)) nfft hop)
                      (\<lambda>k t. to_complex64
                         (stft_sum nfft hop (pad_reflect (nfft div 2) (flat y)) k t)))"
    using assms by (simp add: librosa_stft_def Let_def)
  then show ?thesis by blast
qed

lemma logmelfilterbank_succeeds:
  assumes "ndim audio = 1" "0 < n_fft self" "0 < hop_length self" "flat audio \<noteq> []"
  shows "\<exists>m. logmelfilterbank L self audio (Some rate) fmin fmax eps = Inr m"
proof -
  from librosa_stft_succeeds [OF assms] obtain f
    where s: "librosa_stft audio (n_fft self) (hop_length self) =
                Inr (tabulate2 (1 + n_fft self div 2)
                  (n_frames (length (flat audio) + 2 * (n_fft self div 2))
                     (n_fft self) (hop_length self)) f)"
    by blast
  show ?thesis
    unfolding logmelfilterbank_def s
    by (cases fmax)
       (simp_all add: Let_def librosa_filters_mel_def map_array_tabulate2
          numpy_transpose_tabulate2 numpy_dot_tabulate2 torch_Tensor_def)
qed

lemma n_frames_centered:
  assumes "nfft \<le> len" "0 < hop"
  shows "n_frames (len + 2 * (nfft div 2)) nfft hop = 1 + (len - nfft mod 2) div hop"
proof -
  have "2 * (nfft div 2) = nfft - nfft mod 2" by presburger
  moreover have "nfft mod 2 \<le> nfft" by presburger
  ultimately have "len + 2 * (nfft div 2) - nfft = len - nfft mod 2"
    using assms(1) by linarith
  then show ?thesis by (simp add: n_frames_def)
qed

text \<open>
  C4, as the code has it: for a mono waveform of length \<open>L\<close> at least \<open>n_fft\<close> (and
  a positive FFT size and hop length, and a sampling rate that is set),
  \<open>logmelfilterbank\<close> returns a 2-D array with the mel buckets on the first axis and
  the frames on the second, and the number of frames is
  \<open>1 + (L - n_fft mod 2) div hop_length\<close>: the signal is padded by \<open>n_fft div 2\<close>
  reflected samples on each side. That is \<open>1 + L div hop_length\<close> when \<open>n_fft\<close> is
  even, as the default 1024 is; with the odd size 1023 and 1024 samples there are 4
  frames, not 5.
\<close>

theorem logmelfilterbank_shape:
  assumes "ndim audio = 1"
    and "n_fft self \<le> length (flat audio)"
    and "0 < n_fft self"
    and "0 < hop_length self"
  shows "\<exists>m. logmelfilterbank L self audio (Some rate) fmin fmax eps = Inr m
           \<and> shape m = [mel_buckets self,
                         1 + (length (flat audio) - n_fft self mod 2) div hop_length self]
           \<and> length (flat m) = mel_buckets self
                 * (1 + (length (flat audio) - n_fft self mod 2) div hop_length self)
           \<and> (even (n_fft self) \<longrightarrow>
                shape m = [mel_buckets self, 1 + length (flat audio) div hop_length self])"
proof -
  have ne: "flat audio \<noteq> []" using assms(2,3) by auto
  from logmelfilterbank_succeeds [OF assms(1,3,4) ne] obtain m
    where m: "logmelfilterbank L self audio (Some rate) fmin fmax eps = Inr m" by blast
  from logmelfilterbank_Inr [OF m] obtain g
    where g: "m = tabulate2 (mel_buckets self)
                (n_frames (length (flat audio) + 2 * (n_fft self div 2))
                   (n_fft self) (hop_length self)) g" by blast
  have s: "shape m = [mel_buckets self,
                      1 + (length (flat audio) - n_fft self mod 2) div hop_length self]"
    unfolding g n_frames_centered [OF assms(2,4)] by simp
  have l: "length (flat m) = mel_buckets self
             * (1 + (length (flat audio) - n_fft self mod 2) div hop_length self)"
    unfolding g n_frames_centered [OF assms(2,4)] by simp
  have e: "shape m = [mel_buckets self, 1 + length (flat audio) div hop_length self]"
    if "even (n_fft self)"
  proof -
    from that have "n_fft self mod 2 = 0" by presburger
    then show ?thesis using s by simp
  qed
  show ?thesis using m s l e by blast
qed

theorem logmelfilterbank_shape_witness:
  "ndim test_decoded = 1 \<and> n_fft small_preprocessor \<le> length (flat test_decoded)
   \<and> even (n_fft small_preprocessor)
   \<and> (\<exists>m. logmelfilterbank test_externals small_preprocessor test_decoded
             (Some 16000) (Some 40) (Some 8000) (1 / 10 ^ 10) = Inr m
          \<and> shape m = [2, 3] \<and> length (flat m) = 6)"
proof -
  have a: "ndim test_decoded = 1" by (simp add: ndim_def test_decoded_def)
  have b: "n_fft small_preprocessor \<le> length (flat test_decoded)"
    by (simp add: small_preprocessor_def AudioPreprocessor_init_def test_decoded_def)
  have c: "0 < n_fft small_preprocessor" "0 < hop_length small_preprocessor"
    by (simp_all add: small_preprocessor_def AudioPreprocessor_init_def)
  have d: "even (n_fft small_preprocessor)"
    by (simp add: small_preprocessor_def AudioPreprocessor_init_def)
  have v: "mel_buckets small_preprocessor = 2" "n_fft small_preprocessor = 4"
    "hop_length small_preprocessor = 2" "length (flat test_decoded) = 4"
    by (simp_all add: small_preprocessor_def AudioPreprocessor_init_def test_decoded_def)
  show ?thesis
    using a b d
      logmelfilterbank_shape [OF a b c, of test_externals 16000 "Some 40" "Some 8000" "1 / 10 ^ 10"]
    unfolding v by auto
qed

theorem logmelfilterbank_frames_counterexample:
  "ndim (NDArray [1024] (replicate 1024 (0::real))) = 1
   \<and> n_fft odd_preprocessor \<le> length (flat (NDArray [1024] (replicate 1024 (0::real))))
   \<and> map_sum id shape
        (logmelfilterbank test_externals odd_preprocessor (NDArray [1024] (replicate 1024 0))
           (Some 16000) (Some 40) (Some 8000) (1 / 10 ^ 10)) = Inr [80, 4]
   \<and> 1 + length (flat (NDArray [1024] (replicate 1024 (0::real)))) div hop_length odd_preprocessor = 5"
proof -
  let ?x = "NDArray [1024] (replicate 1024 (0::real))"
  have a: "ndim ?x = 1" by (simp add: ndim_def)
  have v: "mel_buckets odd_preprocessor = 80" "n_fft odd_preprocessor = 1023"
    "hop_length odd_preprocessor = 256" "length (flat ?x) = 1024"
    by (simp_all add: odd_preprocessor_def AudioPreprocessor_init_def)
  have ne: "flat ?x \<noteq> []" by (simp add: replicate_empty)
  from logmelfilterbank_succeeds [of ?x odd_preprocessor test_externals 16000 "Some 40" "Some 8000" "1 / 10 ^ 10"]
  obtain m where m: "logmelfilterbank test_externals odd_preprocessor ?x
           (Some 16000) (Some 40) (Some 8000) (1 / 10 ^ 10) = Inr m"
    using a ne v by auto
  from logmelfilterbank_Inr [OF m] have "shape m = [80, 4]"
    unfolding v by (auto simp: n_frames_def)
  then show ?thesis using a v m by simp
qed

subsection \<open>Values of the entries\<close>

lemma reflect_index_less: "0 < len \<Longrightarrow> reflect_index len j < len"
proof (cases "len \<le> 1")
  case True
  then show "0 < len \<Longrightarrow> reflect_index len j < len" by (simp add: reflect_index_def)
next
  case False
  define period where "period = 2 * (int len - 1)"
  define m where "m = j mod period"
  have p: "0 < period" using False by (simp add: period_def)
  have m: "0 \<le> m" "m < period" using p by (simp_all add: m_def)
  have r: "reflect_index len j = nat (if m < int len then m else period - m)"
    using False by (simp add: reflect_index_def Let_def m_def period_def)
  show ?thesis
  proof (cases "m < int len")
    case True
    then show ?thesis using m r by simp
  next
    case F: False
    from F have "int len \<le> m" by simp
    then have "period - m < int len" by (simp add: period_def)
    moreover have "0 < period - m" using m by simp
    ultimately show ?thesis using F r by simp
  qed
qed

lemma pad_reflect_nth_in_set:
  assumes "y \<noteq> []" "i < length y + 2 * p"
  shows "pad_reflect p y ! i \<in> set y"
  using assms reflect_index_less [of "length y" "int i - int p"]
  by (simp add: pad_reflect_def)

lemma hann_bound: "\<bar>hann n k\<bar> \<le> 1"
proof -
  have "- 1 \<le> cos (2 * pi * real k / real n)" "cos (2 * pi * real k / real n) \<le> 1"
    by simp_all
  then show ?thesis unfolding hann_def by linarith
qed

lemma frame_in_range:
  assumes "t < n_frames lenp nfft hop" "nfft \<le> lenp" "0 < hop" "n < nfft"
  shows "t * hop + n < lenp"
proof -
  have "t \<le> (lenp - nfft) div hop" using assms(1) by (simp add: n_frames_def)
  then have "t * hop \<le> (lenp - nfft) div hop * hop" by (rule mult_le_mono1)
  also have "\<dots> \<le> lenp - nfft" by simp
  finally show ?thesis using assms(2,4) by linarith
qed

lemma stft_sum_bound:
  assumes ne: "y \<noteq> []"
    and small: "\<forall>v\<in>set y. \<bar>v\<bar> * real nfft \<le> 2 ^ 127"
    and pos: "0 < nfft" "0 < hop"
    and fits: "nfft \<le> length y + 2 * p"
    and t: "t < n_frames (length y + 2 * p) nfft hop"
  shows "cmod (stft_sum nfft hop (pad_reflect p y) k t) \<le> 2 ^ 127"
proof -
  let ?pad = "pad_reflect p y"
  have each: "cmod (complex_of_real (hann nfft n * ?pad ! (t * hop + n))
                    * cis (- (2 * pi * real k * real n / real nfft))) \<le> 2 ^ 127 / real nfft"
    if "n < nfft" for n
  proof -
    have "t * hop + n < length y + 2 * p"
      by (rule frame_in_range [OF t fits pos(2) that])
    then have "?pad ! (t * hop + n) \<in> set y" by (rule pad_reflect_nth_in_set [OF ne])
    then have b: "\<bar>?pad ! (t * hop + n)\<bar> \<le> 2 ^ 127 / real nfft"
      using small pos(1) by (simp add: le_divide_eq)
    have "\<bar>hann nfft n * ?pad ! (t * hop + n)\<bar> = \<bar>hann nfft n\<bar> * \<bar>?pad ! (t * hop + n)\<bar>"
      by (rule abs_mult)
    also have "\<dots> \<le> 1 * \<bar>?pad ! (t * hop + n)\<bar>"
      by (intro mult_right_mono hann_bound) simp
    finally have "\<bar>hann nfft n * ?pad ! (t * hop + n)\<bar> \<le> 2 ^ 127 / real nfft"
      using b by linarith
    then show ?thesis by (simp add: norm_mult)
  qed
  have "cmod (stft_sum nfft hop ?pad k t)
          \<le> (\<Sum>n<nfft. cmod (complex_of_real (hann nfft n * ?pad ! (t * hop + n))
                    * cis (- (2 * pi * real k * real n / real nfft))))"
    unfolding stft_sum_def by (rule norm_sum)
  also have "\<dots> \<le> real (card {..<nfft}) * (2 ^ 127 / real nfft)"
    by (rule sum_bounded_above) (use each in simp)
  also have "\<dots> = 2 ^ 127" using pos(1) by simp
  finally show ?thesis .
qed

lemma to_float32_small: "\<bar>r\<bar> \<le> 2 ^ 127 \<Longrightarrow> to_float32 r = Fin r"
proof -
  assume "\<bar>r\<bar> \<le> 2 ^ 127"
  moreover have "(2::real) ^ 127 < 2 ^ 128 - 2 ^ 103" by simp
  ultimately show ?thesis by (simp add: to_float32_def)
qed

lemma numpy_abs_to_complex64:
  assumes "cmod z \<le> 2 ^ 127"
  shows "numpy_abs (to_complex64 z) = Fin (cmod z)"
proof -
  have "\<bar>Re z\<bar> \<le> 2 ^ 127" using abs_Re_le_cmod [of z] assms by linarith
  moreover have "\<bar>Im z\<bar> \<le> 2 ^ 127" using abs_Im_le_cmod [of z] assms by linarith
  moreover have "\<bar>cmod z\<bar> \<le> 2 ^ 127" using assms by simp
  ultimately show ?thesis
    by (simp add: numpy_abs_def to_complex64_def to_float32_small cmod_def [symmetric])
qed

lemma to_float32_nonneg: "0 \<le> r \<Longrightarrow> at_least 0 (to_float32 r)"
  by (simp add: to_float32_def at_least_def signed_inf_def)

lemma fmul32_nonneg: "0 \<le> a \<Longrightarrow> 0 \<le> b \<Longrightarrow> at_least 0 (fmul32 (Fin a) (Fin b))"
  by (simp add: fmul32_def to_float32_nonneg)

lemma fadd32_nonneg: "at_least 0 a \<Longrightarrow> at_least 0 b \<Longrightarrow> at_least 0 (fadd32 a b)"
  by (cases a; cases b) (simp_all add: fadd32_def at_least_def to_float32_nonneg [unfolded at_least_def])

lemma foldl_fadd32_nonneg:
  "at_least 0 acc \<Longrightarrow> list_all (at_least 0) terms \<Longrightarrow> at_least 0 (foldl fadd32 acc terms)"
  by (induction terms arbitrary: acc) (simp_all add: fadd32_nonneg)

lemma dot32_nonneg: "list_all (at_least 0) terms \<Longrightarrow> at_least 0 (dot32 terms)"
  unfolding dot32_def by (rule foldl_fadd32_nonneg) (simp add: at_least_def)

lemma log10_eps: "log 10 (1 / 10 ^ 10) = - 10"
proof -
  have "log 10 (1 / 10 ^ 10) = - log 10 (10 ^ 10)"
    by (simp add: log_divide)
  also have "log 10 (10 ^ 10 :: real) = real 10 * log 10 10"
    by (rule log_nat_power) simp
  finally show ?thesis by simp
qed

lemma floored_log10:
  assumes "at_least 0 v"
  shows "at_least (- 10) (numpy_log10 (fmaximum (Fin (1 / 10 ^ 10)) v))"
proof (cases v)
  case (Fin r)
  let ?e = "1 / 10 ^ 10 :: real"
  have p: "0 < max ?e r" by (simp add: less_max_iff_disj)
  have "log 10 ?e \<le> log 10 (max ?e r)"
    using p by (subst log_le_cancel_iff) simp_all
  then have "- 10 \<le> log 10 (max ?e r)" by (simp only: log10_eps)
  then show ?thesis using p unfolding Fin by (simp add: flog10_def at_least_def)
qed (use assms in \<open>simp_all add: at_least_def\<close>)

lemma nonnegative_test_weights: "nonnegative_weights test_externals"
  by (simp add: nonnegative_weights_def test_externals_def)

lemma pad_reflect_constant:
  assumes "y \<noteq> []" "\<forall>v\<in>set y. v = c" "i < length y + 2 * p"
  shows "pad_reflect p y ! i = c"
  using pad_reflect_nth_in_set [OF assms(1,3)] assms(2) by blast

lemma hann4: "hann 4 0 = 0" "hann 4 1 = 1 / 2" "hann 4 2 = 1" "hann 4 3 = 1 / 2"
proof -
  show "hann 4 0 = 0" by (simp add: hann_def)
  have "cos (2 * pi * 1 / 4) = cos (pi / 2)" by simp
  then show "hann 4 1 = 1 / 2" by (simp add: hann_def)
  have "cos (2 * pi * 2 / 4) = cos pi" by simp
  then show "hann 4 2 = 1" by (simp add: hann_def)
  have "2 * pi * 3 / 4 = pi / 2 + pi" by simp
  then have "cos (2 * pi * 3 / 4) = cos (pi / 2 + pi)" by (simp only:)
  also have "\<dots> = - cos (pi / 2)" by (rule cos_periodic_pi)
  finally have "cos (2 * pi * real 3 / real 4) = 0" by simp
  then show "hann 4 3 = 1 / 2" by (simp add: hann_def)
qed

lemma stft_sum_loud:
  assumes "j < 3"
  shows "stft_sum 4 2 (pad_reflect 2 (flat test_loud)) 0 j = 2 ^ 128"
proof -
  have p: "pad_reflect 2 (flat test_loud) ! i = 2 ^ 127" if "i < 8" for i
    using that by (intro pad_reflect_constant) (simp_all add: test_loud_def)
  have i: "j * 2 < 8" "j * 2 + 1 < 8" "j * 2 + 2 < 8" "j * 2 + 3 < 8" using assms by simp_all
  have "{..<4::nat} = {0, 1, 2, 3}" by auto
  then have "stft_sum 4 2 (pad_reflect 2 (flat test_loud)) 0 j
             = complex_of_real (hann 4 0 * pad_reflect 2 (flat test_loud) ! (j * 2))
             + complex_of_real (hann 4 1 * pad_reflect 2 (flat test_loud) ! (j * 2 + 1))
             + complex_of_real (hann 4 2 * pad_reflect 2 (flat test_loud) ! (j * 2 + 2))
             + complex_of_real (hann 4 3 * pad_reflect 2 (flat test_loud) ! (j * 2 + 3))"
    by (simp add: stft_sum_def)
  also have "\<dots> = 2 ^ 128"
    by (simp only: p [OF i(1)] p [OF i(2)] p [OF i(3)] p [OF i(4)] hann4) simp
  finally show ?thesis .
qed

lemma foldl_fadd32_NaN: "foldl fadd32 NaN terms = NaN"
  by (induction terms) (simp_all add: fadd32_def)

lemma dot32_NaN_first: "dot32 (NaN # terms) = NaN"
  by (simp add: dot32_def fadd32_def foldl_fadd32_NaN)

text \<open>
  C5, as the code has it: for a waveform whose samples, times the FFT size, stay within
  \<open>2^127\<close> (every waveform in \<open>[-1, 1]\<close> is one) and a filterbank without negative
  weights, as librosa's is, every entry of the array \<open>logmelfilterbank\<close> returns with
  the epsilon \<open>1e-10\<close> is a number not below \<open>log10 1e-10 = -10\<close>, neither \<open>-inf\<close>
  nor NaN: the maximum with the epsilon is taken before the logarithm. Beyond that
  range the spectrum overflows single precision: on four samples of \<open>2^127\<close> the bin of
  frequency zero is \<open>inf\<close>, its product with a zero weight is NaN, the maximum
  propagates it, and every entry is NaN.
\<close>

theorem logmelfilterbank_entries_floored:
  assumes run: "logmelfilterbank L self audio rate fmin fmax (1 / 10 ^ 10) = Inr m"
    and small: "within_float32 (n_fft self) audio"
    and weights: "nonnegative_weights L"
  shows "list_all (at_least (- 10)) (flat m)"
proof -
  let ?N = "n_fft self" and ?h = "hop_length self"
  let ?pad = "pad_reflect (?N div 2) (flat audio)"
  let ?T = "n_frames (length (flat audio) + 2 * (?N div 2)) ?N ?h"
  from logmelfilterbank_result [OF run] obtain rate' lo hi
    where m: "m = tabulate2 (mel_buckets self) ?T
                 (\<lambda>i j. numpy_log10 (fmaximum (Fin (1 / 10 ^ 10))
                    (dot32 (map (\<lambda>l. fmul32
                        (numpy_abs (to_complex64 (stft_sum ?N ?h ?pad l j)))
                        (Fin (filters_mel_weight L rate' ?N (mel_buckets self) lo hi i l)))
                      [0..<1 + ?N div 2]))))"
      and ne: "flat audio \<noteq> []" and pos: "0 < ?N" "0 < ?h"
      and fits: "?N \<le> length (flat audio) + 2 * (?N div 2)"
    by blast
  have sm: "\<forall>v\<in>set (flat audio). \<bar>v\<bar> * real ?N \<le> 2 ^ 127"
    using small by (simp add: within_float32_def list_all_iff)
  have w: "0 \<le> filters_mel_weight L rate' ?N (mel_buckets self) lo hi i l" for i l
    using weights by (simp add: nonnegative_weights_def)
  have entry: "at_least (- 10) (numpy_log10 (fmaximum (Fin (1 / 10 ^ 10))
                    (dot32 (map (\<lambda>l. fmul32
                        (numpy_abs (to_complex64 (stft_sum ?N ?h ?pad l j)))
                        (Fin (filters_mel_weight L rate' ?N (mel_buckets self) lo hi i l)))
                      [0..<1 + ?N div 2]))))"
    if "j < ?T" for i j
  proof -
    have "at_least 0 (fmul32 (numpy_abs (to_complex64 (stft_sum ?N ?h ?pad l j)))
                        (Fin (filters_mel_weight L rate' ?N (mel_buckets self) lo hi i l)))" for l
    proof -
      have "cmod (stft_sum ?N ?h ?pad l j) \<le> 2 ^ 127"
        by (rule stft_sum_bound [OF ne sm pos fits that])
      then have "numpy_abs (to_complex64 (stft_sum ?N ?h ?pad l j))
                   = Fin (cmod (stft_sum ?N ?h ?pad l j))"
        by (rule numpy_abs_to_complex64)
      then show ?thesis using w by (simp add: fmul32_nonneg)
    qed
    then have "at_least 0 (dot32 (map (\<lambda>l. fmul32
                        (numpy_abs (to_complex64 (stft_sum ?N ?h ?pad l j)))
                        (Fin (filters_mel_weight L rate' ?N (mel_buckets self) lo hi i l)))
                      [0..<1 + ?N div 2]))"
      by (intro dot32_nonneg) (simp add: list_all_iff)
    then show ?thesis by (rule floored_log10)
  qed
  have T: "0 < ?T" by (simp add: n_frames_def)
  show ?thesis
    unfolding m tabulate2_def list_all_iff
  proof (simp only: ndarray.sel set_map, rule ballI, erule imageE)
    fix v k
    assume "k \<in> set [0..<mel_buckets self * ?T]"
      and v: "v = numpy_log10 (fmaximum (Fin (1 / 10 ^ 10))
                    (dot32 (map (\<lambda>l. fmul32
                        (numpy_abs (to_complex64 (stft_sum ?N ?h ?pad l (k mod ?T))))
                        (Fin (filters_mel_weight L rate' ?N (mel_buckets self) lo hi
                                (k div ?T) l)))
                      [0..<1 + ?N div 2])))"
    have "k mod ?T < ?T" using T by simp
    then show "at_least (- 10) v" unfolding v by (rule entry)
  qed
qed

theorem logmelfilterbank_entries_floored_witness:
  "within_float32 (n_fft small_preprocessor) test_decoded
   \<and> nonnegative_weights test_externals
   \<and> (\<exists>m. logmelfilterbank test_externals small_preprocessor test_decoded
             (Some 16000) (Some 40) (Some 8000) (1 / 10 ^ 10) = Inr m
          \<and> length (flat m) = 6 \<and> list_all (at_least (- 10)) (flat m))"
proof -
  have a: "ndim test_decoded = 1" by (simp add: ndim_def test_decoded_def)
  have v: "mel_buckets small_preprocessor = 2" "n_fft small_preprocessor = 4"
    "hop_length small_preprocessor = 2" "length (flat test_decoded) = 4"
    by (simp_all add: small_preprocessor_def AudioPreprocessor_init_def test_decoded_def)
  have ne: "flat test_decoded \<noteq> []" by (simp add: test_decoded_def)
  have s: "within_float32 (n_fft small_preprocessor) test_decoded"
    unfolding v by (simp add: within_float32_def test_decoded_def)
  from logmelfilterbank_succeeds [of test_decoded small_preprocessor test_externals 16000
      "Some 40" "Some 8000" "1 / 10 ^ 10"]
  obtain m where m: "logmelfilterbank test_externals small_preprocessor test_decoded
           (Some 16000) (Some 40) (Some 8000) (1 / 10 ^ 10) = Inr m"
    using a ne v by auto
  from logmelfilterbank_Inr [OF m] have "length (flat m) = 6"
    unfolding v by (auto simp: n_frames_def)
  then show ?thesis
    using m s nonnegative_test_weights
      logmelfilterbank_entries_floored [OF m s nonnegative_test_weights]
    by blast
qed

theorem logmelfilterbank_overflow_counterexample:
  "logmelfilterbank test_externals small_preprocessor test_loud
     (Some 16000) (Some 40) (Some 8000) (1 / 10 ^ 10)
     = Inr (NDArray [2, 3] [NaN, NaN, NaN, NaN, NaN, NaN])
   \<and> \<not> at_least (- 10) NaN"
proof -
  have a: "ndim test_loud = 1" by (simp add: ndim_def test_loud_def)
  have v: "mel_buckets small_preprocessor = 2" "n_fft small_preprocessor = 4"
    "hop_length small_preprocessor = 2" "length (flat test_loud) = 4"
    by (simp_all add: small_preprocessor_def AudioPreprocessor_init_def test_loud_def)
  have ne: "flat test_loud \<noteq> []" by (simp add: test_loud_def)
  from logmelfilterbank_succeeds [of test_loud small_preprocessor test_externals 16000
      "Some 40" "Some 8000" "1 / 10 ^ 10"]
  obtain m where m: "logmelfilterbank test_externals small_preprocessor test_loud
           (Some 16000) (Some 40) (Some 8000) (1 / 10 ^ 10) = Inr m"
    using a ne v by auto
  have e: "(4::nat) div 2 = 2" "1 + (2::nat) = 3" "n_frames (4 + 2 * 2) 4 2 = 3"
    by (simp_all add: n_frames_def)
  from logmelfilterbank_result [OF m, unfolded v e] obtain rate' lo hi
    where r: "m = tabulate2 2 3
                 (\<lambda>i j. numpy_log10 (fmaximum (Fin (1 / 10 ^ 10))
                    (dot32 (map (\<lambda>l. fmul32
                        (numpy_abs (to_complex64
                           (stft_sum 4 2 (pad_reflect 2 (flat test_loud)) l j)))
                        (Fin (filters_mel_weight test_externals rate' 4 2 lo hi i l)))
                      [0..<3]))))"
    by blast
  have inf: "numpy_abs (to_complex64 (2 ^ 128)) = PInf"
    by (simp add: numpy_abs_def to_complex64_def to_float32_def signed_inf_def)
  have zero: "filters_mel_weight test_externals rate' 4 2 lo hi i 0 = 0" for i
    by (simp add: test_externals_def)
  have split: "[0..<3] = 0 # [1..<3]" by (simp add: upt_rec)
  have entry: "numpy_log10 (fmaximum (Fin (1 / 10 ^ 10))
                    (dot32 (map (\<lambda>l. fmul32
                        (numpy_abs (to_complex64
                           (stft_sum 4 2 (pad_reflect 2 (flat test_loud)) l j)))
                        (Fin (filters_mel_weight test_externals rate' 4 2 lo hi i l)))
                      [0..<3]))) = NaN" if "j < 3" for i j
  proof -
    have "fmul32 (numpy_abs (to_complex64
                    (stft_sum 4 2 (pad_reflect 2 (flat test_loud)) 0 j)))
            (Fin (filters_mel_weight test_externals rate' 4 2 lo hi i 0))
          = fmul32 PInf (Fin 0)"
      by (simp only: stft_sum_loud [OF that] inf zero)
    also have "\<dots> = NaN" by (simp add: fmul32_def signed_inf_def)
    finally show ?thesis
      by (simp only: split list.map dot32_NaN_first fmaximum.simps numpy_log10.simps)
  qed
  have "m = tabulate2 2 3 (\<lambda>i j. NaN)"
    unfolding r by (rule tabulate2_cong) (rule entry)
  also have "\<dots> = NDArray [2, 3] [NaN, NaN, NaN, NaN, NaN, NaN]"
    by (simp add: tabulate2_def upt_rec)
  finally show ?thesis using m by (simp add: at_least_def)
qed

section \<open>The composite accessors\<close>

text \<open>
  C7: \<open>audio_to_wave_tensor\<close> returns one of four results, chosen by the two flags:
  the input as a float tensor, unchanged, when both are false; the normalised waveform
  when only \<open>normalize\<close> is true; the mu-law codes of the input when only \<open>mulaw\<close> is
  true; the mu-law codes of the normalised waveform when both are true.
\<close>

theorem audio_to_wave_tensor_four_cases:
  "audio_to_wave_tensor L self audio False False = Inr (FloatTensor audio)
   \<and> audio_to_wave_tensor L self audio True False =
       and_then (normalize_audio L self audio) (\<lambda>a. Inr (FloatTensor a))
   \<and> audio_to_wave_tensor L self audio False True =
       Inr (LongTensor (mu_encode self audio))
   \<and> audio_to_wave_tensor L self audio True True =
       and_then (normalize_audio L self audio) (\<lambda>a. Inr (LongTensor (mu_encode self a)))"
  by (simp add: audio_to_wave_tensor_def apply_mu_law_def torch_Tensor_def)

theorem audio_to_wave_tensor_four_cases_witness:
  "audio_to_wave_tensor test_externals test_preprocessor test_wave False False =
     Inr (FloatTensor (NDArray [2] [Fin (1 / 2), Fin (- (1 / 4))]))
   \<and> audio_to_wave_tensor test_externals test_preprocessor test_wave True False =
     Inr (FloatTensor (NDArray [2] [Fin 1, Fin (- (1 / 2))]))
   \<and> audio_to_wave_tensor test_externals test_preprocessor test_wave False True =
     Inr (LongTensor (mu_encode test_preprocessor test_wave))
   \<and> audio_to_wave_tensor test_externals test_preprocessor test_wave True True =
     Inr (LongTensor (mu_encode test_preprocessor (NDArray [2] [Fin 1, Fin (- (1 / 2))])))"
  using audio_to_wave_tensor_four_cases [of test_externals test_preprocessor test_wave]
    normalize_audio_test_wave
  by (simp add: test_wave_def)

text \<open>
  C3: \<open>audio_to_mel_spec_tensor\<close> decodes the mu-law codes of the waveform right after
  encoding it, in both branches. With \<open>normalize\<close> true the waveform is the normalised
  one and the spectrogram is computed at the output rate the preprocessor was built
  with; with \<open>normalize\<close> false the waveform is the input and the rate is the input rate.
\<close>

theorem audio_to_mel_spec_tensor_branches:
  "audio_to_mel_spec_tensor L (AudioPreprocessor_init L input_sr output_sr mb hop nfft) audio True =
     and_then (normalize_audio L (AudioPreprocessor_init L input_sr output_sr mb hop nfft) audio)
       (\<lambda>a. logmelfilterbank L (AudioPreprocessor_init L input_sr output_sr mb hop nfft)
               (MuLawDecoding 256 (MuLawEncoding L 256 a)) output_sr
               (Some 40) (Some 8000) (1 / 10 ^ 10))
   \<and> audio_to_mel_spec_tensor L (AudioPreprocessor_init L input_sr output_sr mb hop nfft) audio False =
     logmelfilterbank L (AudioPreprocessor_init L input_sr output_sr mb hop nfft)
       (MuLawDecoding 256 (MuLawEncoding L 256 audio)) (Some input_sr)
       (Some 40) (Some 8000) (1 / 10 ^ 10)"
  by (simp add: audio_to_mel_spec_tensor_def mel_spec_new_sr_def mel_spec_orig_sr_def
      AudioPreprocessor_init_def torch_Tensor_def)

theorem audio_to_mel_spec_tensor_branches_witness:
  "audio_to_mel_spec_tensor test_externals test_preprocessor test_wave True =
     logmelfilterbank test_externals test_preprocessor
       (MuLawDecoding 256 (MuLawEncoding test_externals 256 (NDArray [2] [Fin 1, Fin (- (1 / 2))])))
       None (Some 40) (Some 8000) (1 / 10 ^ 10)
   \<and> audio_to_mel_spec_tensor test_externals test_preprocessor test_wave False =
     logmelfilterbank test_externals test_preprocessor
       (MuLawDecoding 256 (MuLawEncoding test_externals 256 test_wave))
       (Some 16000) (Some 40) (Some 8000) (1 / 10 ^ 10)"
  using audio_to_mel_spec_tensor_branches [of test_externals 16000 None 80 256 1024 test_wave]
    normalize_audio_test_wave
  by (simp add: test_preprocessor_def)

lemma logmelfilterbank_no_rate:
  "isl (logmelfilterbank L self audio None fmin (Some f) eps)"
  by (cases "librosa_stft audio (n_fft self) (hop_length self)")
     (simp_all add: logmelfilterbank_def librosa_filters_mel_def Let_def)

text \<open>
  C10: a preprocessor built with no output rate stores \<open>None\<close> as \<open>new_sr\<close>;
  \<open>mel_spec_new_sr\<close> hands it to the filterbank computation as the sampling rate, with
  no fall-back to the input rate; and \<open>audio_to_mel_spec_tensor\<close> with \<open>normalize\<close>
  true then fails on every input.
\<close>

theorem mel_spec_without_output_rate_fails:
  "new_sr (AudioPreprocessor_init L input_sr None mb hop nfft) = None
   \<and> mel_spec_new_sr L (AudioPreprocessor_init L input_sr None mb hop nfft) decoded =
       logmelfilterbank L (AudioPreprocessor_init L input_sr None mb hop nfft) decoded None
         (Some 40) (Some 8000) (1 / 10 ^ 10)
   \<and> isl (audio_to_mel_spec_tensor L (AudioPreprocessor_init L input_sr None mb hop nfft) audio True)"
proof -
  let ?ap = "AudioPreprocessor_init L input_sr None mb hop nfft"
  have n: "new_sr ?ap = None" by (simp add: AudioPreprocessor_init_def)
  have "isl (audio_to_mel_spec_tensor L ?ap audio True)"
    by (cases "normalize_audio L ?ap audio")
       (simp_all add: audio_to_mel_spec_tensor_def mel_spec_new_sr_def n logmelfilterbank_no_rate)
  then show ?thesis by (simp add: mel_spec_new_sr_def n)
qed

theorem mel_spec_without_output_rate_fails_witness:
  "new_sr test_preprocessor = None
   \<and> isl (audio_to_mel_spec_tensor test_externals test_preprocessor test_wave True)"
  using mel_spec_without_output_rate_fails [of test_externals 16000 80 256 1024 "NDArray [1] [0]" test_wave]
  by (simp add: test_preprocessor_def)

end
